theory Spec2Isabelle
  imports Complex_Main "HOL-Library.Sublist" "HOL-Library.Multiset"
begin

section \<open>JavaScript strings\<close>

text \<open>
  A JavaScript string is the list of its code units; the model uses \<^typ>\<open>string\<close>, one
  \<^typ>\<open>char\<close> per code unit, which covers the code units below 256. The string methods
  the sources call are written out as functions on such lists: \<open>startsWith\<close>,
  \<open>endsWith\<close> and \<open>includes\<close> (here \<open>includes_str\<close>) first, the others where they are
  used.
\<close>

definition startsWith :: "string \<Rightarrow> string \<Rightarrow> bool" where
  "startsWith s search = (take (length search) s = search)"

definition endsWith :: "string \<Rightarrow> string \<Rightarrow> bool" where
  "endsWith s search =
     (length search \<le> length s \<and> drop (length s - length search) s = search)"

fun includes_str :: "string \<Rightarrow> string \<Rightarrow> bool" where
  "includes_str [] search = (search = [])"
| "includes_str (c # cs) search = (startsWith (c # cs) search \<or> includes_str cs search)"

text \<open>
  \<open>toLowerCase\<close> on code units below 256: the letters A to Z and the Latin-1 capitals
  (192 to 222 without the multiplication sign 215) move up by 32.
\<close>

definition lower_char :: "char \<Rightarrow> char" where
  "lower_char c =
     (let n = (of_char c :: nat) in
      if (65 \<le> n \<and> n \<le> 90) \<or> (192 \<le> n \<and> n \<le> 222 \<and> n \<noteq> 215)
      then char_of (n + 32) else c)"

definition toLowerCase :: "string \<Rightarrow> string" where
  "toLowerCase s = map lower_char s"

section \<open>JavaScript objects used as dictionaries\<close>

text \<open>
  The gateway's \<open>byService\<close> and the builder's \<open>frontmatter\<close> are plain objects
  (\<open>{}\<close>) used as dictionaries. The model keeps the object's own properties as a map.
  Reading \<open>obj[name]\<close> also looks at \<open>Object.prototype\<close>, whose property names are
  listed here: an own property comes first, then an inherited one (a function, or for
  \<open>__proto__\<close> the prototype itself), then \<open>undefined\<close>. Writing \<open>obj[name] = v\<close> for
  a number or a string \<open>v\<close> stores an own property, except for the name \<open>__proto__\<close>
  when it is not an own property: the inherited setter ignores such a value.
\<close>

definition object_prototype_names :: "string list" where
  "object_prototype_names =
     [''constructor'', ''__defineGetter__'', ''__defineSetter__'', ''hasOwnProperty'',
      ''__lookupGetter__'', ''__lookupSetter__'', ''isPrototypeOf'', ''propertyIsEnumerable'',
      ''toString'', ''valueOf'', ''__proto__'', ''toLocaleString'']"

datatype 'a property = Undefined | Own 'a | Inherited

definition get_property :: "(string \<rightharpoonup> 'a) \<Rightarrow> string \<Rightarrow> 'a property" where
  "get_property obj name =
     (case obj name of
        Some v \<Rightarrow> Own v
      | None \<Rightarrow> (if name \<in> set object_prototype_names then Inherited else Undefined))"

definition assign_property :: "(string \<rightharpoonup> 'a) \<Rightarrow> string \<Rightarrow> 'a \<Rightarrow> (string \<rightharpoonup> 'a)" where
  "assign_property obj name v =
     (if name = ''__proto__'' \<and> obj name = None then obj else obj(name \<mapsto> v))"

section \<open>Gateway: request statistics\<close>

text \<open>
  \<open>this.requestStats = { total: 0, byService: {}, errors: 0 }\<close> of the gateway class.
  \<open>total\<close> and \<open>errors\<close> are counts. A counter of \<open>byService\<close> is a JavaScript number
  as \<open>updateServiceStats\<close> can leave it: \<open>Count n\<close>, the double with the integer value
  \<open>n\<close>, or \<open>NaN\<close>.
\<close>

datatype counter = Count nat | NotANumber

record request_stats =
  total :: nat
  byService :: "string \<rightharpoonup> counter"
  errors :: nat

definition initial_stats :: request_stats where
  "initial_stats = \<lparr>total = 0, byService = Map.empty, errors = 0\<rparr>"

text \<open>
  \<open>n + 1\<close> in double arithmetic, for a double with the integer value \<open>n\<close>: exact below
  \<open>2^53\<close>; from there to \<open>2^54\<close> the doubles are the even numbers and \<open>n + 1\<close> lies
  half way between two of them, so it is rounded to the one with the even significand;
  from \<open>2^54\<close> on the nearest double is \<open>n\<close> itself.
\<close>

definition double_succ :: "nat \<Rightarrow> nat" where
  "double_succ n =
     (if n < 9007199254740992 then n + 1
      else if n < 18014398509481984 then (if n mod 4 = 0 then n else n + 2)
      else n)"

text \<open>
  \<open>!v\<close> for what \<open>byService[serviceName]\<close> reads: true for \<open>undefined\<close>, 0 and
  \<open>NaN\<close>, false for another number and for an inherited function or object. \<open>v + 1\<close>
  after the conversion to a number: an inherited function or object, and \<open>undefined\<close>,
  convert to \<open>NaN\<close>.
\<close>

fun falsy :: "counter property \<Rightarrow> bool" where
  "falsy Undefined = True"
| "falsy (Own (Count n)) = (n = 0)"
| "falsy (Own NotANumber) = True"
| "falsy Inherited = False"

fun plus_one :: "counter property \<Rightarrow> counter" where
  "plus_one (Own (Count n)) = Count (double_succ n)"
| "plus_one (Own NotANumber) = NotANumber"
| "plus_one Undefined = NotANumber"
| "plus_one Inherited = NotANumber"

text \<open>
  \<open>updateServiceStats(serviceName)\<close>: under the guard \<open>!byService[serviceName]\<close> it
  stores 0; then \<open>byService[serviceName]++\<close> reads the property, adds one and stores
  the sum.
\<close>

definition updateServiceStats :: "string \<Rightarrow> request_stats \<Rightarrow> request_stats" where
  "updateServiceStats serviceName st =
     (let m0 = byService st;
          m1 = (if falsy (get_property m0 serviceName)
                then assign_property m0 serviceName (Count 0) else m0);
          m2 = assign_property m1 serviceName (plus_one (get_property m1 serviceName))
      in st\<lparr>byService := m2\<rparr>)"

text \<open>
  JavaScript numbers as far as \<open>getServiceMetrics\<close> needs them: a division by zero
  does not throw, it yields \<open>NaN\<close> (0/0) or \<open>Infinity\<close> (n/0 for n > 0). Finite
  quotients are kept exact.
\<close>

datatype js_number = Finite rat | PosInfinity | NaN

definition js_divide :: "nat \<Rightarrow> nat \<Rightarrow> js_number" where
  "js_divide a b =
     (if b = 0 then (if a = 0 then NaN else PosInfinity)
      else Finite (of_nat a / of_nat b))"

record service_metrics =
  totalRequests :: nat
  requestsByService :: "string \<rightharpoonup> counter"
  errorRate :: js_number

definition getServiceMetrics :: "request_stats \<Rightarrow> service_metrics" where
  "getServiceMetrics st =
     \<lparr>totalRequests = total st,
      requestsByService = byService st,
      errorRate = (if total st > 0 then js_divide (errors st) (total st) else Finite 0)\<rparr>"

section \<open>Gateway: authentication\<close>

text \<open>\<open>validateApiKey(apiKey)\<close>: \<open>apiKey.startsWith('regima_') && apiKey.length > 20\<close>.\<close>

definition validateApiKey :: "string \<Rightarrow> bool" where
  "validateApiKey apiKey = (startsWith apiKey ''regima_'' \<and> length apiKey > 20)"

text \<open>
  The request and response objects of Express, as far as the middleware and the handlers
  read and write them. Header names arrive in lower case and header values are strings.
  A value of \<open>req.query\<close> is a string, or an array or object (\<open>QOther\<close>) when the
  parameter is repeated or written with brackets. \<open>req_body\<close> is what the body parsers
  make of the body: the parsed value, or the status of the error they raise (400 for a
  malformed body). A response starts with status 200 and no body; \<open>res.status(c)\<close> sets
  the status and \<open>res.json(v)\<close> sends the body. A body that is not JSON (the empty body of
  a preflight answer, the page of the error handler) is not kept.
\<close>

datatype json =
    JString string
  | JNumber rat
  | JBool bool
  | JNull
  | JArray "json list"
  | JObject "(string \<times> json) list"

record user =
  user_apiKey :: string
  user_role :: string

datatype query_value = QString string | QOther

datatype parsed_body = Parsed json | Rejected nat

record request =
  req_method :: string
  req_path :: string
  req_headers :: "string \<rightharpoonup> string"
  req_query :: "string \<rightharpoonup> query_value"
  req_body :: parsed_body
  req_user :: "user option"

record response =
  statusCode :: nat
  sent :: "json option"

definition new_response :: response where
  "new_response = \<lparr>statusCode = 200, sent = None\<rparr>"

definition res_status :: "nat \<Rightarrow> response \<Rightarrow> response" where
  "res_status c res = res\<lparr>statusCode := c\<rparr>"

definition res_json :: "json \<Rightarrow> response \<Rightarrow> response" where
  "res_json v res = res\<lparr>sent := Some v\<rparr>"

text \<open>
  \<open>req.headers['x-api-key'] || req.query.apiKey\<close>: the header unless it is missing or
  empty, else the query parameter.
\<close>

definition api_key_of :: "request \<Rightarrow> query_value option" where
  "api_key_of req =
     (case req_headers req ''x-api-key'' of
        None \<Rightarrow> req_query req ''apiKey''
      | Some h \<Rightarrow> (if h = [] then req_query req ''apiKey'' else Some (QString h)))"

text \<open>
  \<open>authenticateRequest(req, res, next)\<close>. The middleware answers itself
  (\<open>return res.status(...).json(...)\<close>), or calls \<open>next()\<close> with \<open>req.user\<close> set, or
  throws: an array or an object is not falsy and has no method \<open>startsWith\<close>, so
  \<open>validateApiKey\<close> raises a \<open>TypeError\<close>.
\<close>

datatype auth_result = Answered response | Next request | Thrown

definition authenticateRequest :: "request \<Rightarrow> response \<Rightarrow> auth_result" where
  "authenticateRequest req res =
     (case api_key_of req of
        None \<Rightarrow>
          Answered (res_json (JObject
                 [(''error'', JString ''Authentication required''),
                  (''message'', JString
                     ''API key must be provided in X-API-Key header or apiKey query parameter'')])
               (res_status 401 res))
      | Some QOther \<Rightarrow> Thrown
      | Some (QString apiKey) \<Rightarrow>
          (if apiKey = [] then
             Answered (res_json (JObject
                 [(''error'', JString ''Authentication required''),
                  (''message'', JString
                     ''API key must be provided in X-API-Key header or apiKey query parameter'')])
               (res_status 401 res))
           else if \<not> validateApiKey apiKey then
             Answered (res_json (JObject
                 [(''error'', JString ''Invalid API key''),
                  (''message'', JString ''The provided API key is not valid'')])
               (res_status 403 res))
           else Next (req\<lparr>req_user := Some \<lparr>user_apiKey = apiKey, user_role = ''user''\<rparr>\<rparr>)))"

subsection \<open>Placeholder handlers\<close>

definition handleAzureOpenAIChat :: "request \<Rightarrow> response \<Rightarrow> response" where
  "handleAzureOpenAIChat req res =
     res_json (JObject [(''message'', JString ''Azure OpenAI endpoint - implementation pending'')]) res"

definition handleCognitiveAnalysis :: "request \<Rightarrow> response \<Rightarrow> response" where
  "handleCognitiveAnalysis req res =
     res_json (JObject [(''message'', JString ''Cognitive analysis endpoint - implementation pending'')]) res"

definition handleDermatologyAssistant :: "request \<Rightarrow> response \<Rightarrow> response" where
  "handleDermatologyAssistant req res =
     res_json (JObject [(''message'', JString ''Dermatology assistant endpoint - implementation pending'')]) res"

definition handleProductAdvisor :: "request \<Rightarrow> response \<Rightarrow> response" where
  "handleProductAdvisor req res =
     res_json (JObject [(''message'', JString ''Product advisor endpoint - implementation pending'')]) res"

definition handleVectorSearch :: "request \<Rightarrow> response \<Rightarrow> response" where
  "handleVectorSearch req res =
     res_json (JObject [(''message'', JString ''Vector search endpoint - implementation pending'')]) res"

definition handleKnowledgeQuery :: "request \<Rightarrow> response \<Rightarrow> response" where
  "handleKnowledgeQuery req res =
     res_json (JObject [(''message'', JString ''Knowledge query endpoint - implementation pending'')]) res"

definition handleRoutineGenerator :: "request \<Rightarrow> response \<Rightarrow> response" where
  "handleRoutineGenerator req res =
     res_json (JObject [(''message'', JString ''Routine generator endpoint - implementation pending'')]) res"

definition handleAtomSpaceQuery :: "request \<Rightarrow> response \<Rightarrow> response" where
  "handleAtomSpaceQuery req res =
     res_json (JObject [(''message'', JString ''AtomSpace query endpoint - implementation pending'')]) res"

definition handlePLNReasoning :: "request \<Rightarrow> response \<Rightarrow> response" where
  "handlePLNReasoning req res =
     res_json (JObject [(''message'', JString ''PLN reasoning endpoint - implementation pending'')]) res"

definition handlePatternMining :: "request \<Rightarrow> response \<Rightarrow> response" where
  "handlePatternMining req res =
     res_json (JObject [(''message'', JString ''Pattern mining endpoint - implementation pending'')]) res"

datatype placeholder =
    AzureOpenAIChat | CognitiveAnalysis | DermatologyAssistant | ProductAdvisor
  | VectorSearch | KnowledgeQuery | RoutineGenerator | AtomSpaceQuery | PLNReasoning
  | PatternMining

fun placeholder_handler :: "placeholder \<Rightarrow> request \<Rightarrow> response \<Rightarrow> response" where
  "placeholder_handler AzureOpenAIChat = handleAzureOpenAIChat"
| "placeholder_handler CognitiveAnalysis = handleCognitiveAnalysis"
| "placeholder_handler DermatologyAssistant = handleDermatologyAssistant"
| "placeholder_handler ProductAdvisor = handleProductAdvisor"
| "placeholder_handler VectorSearch = handleVectorSearch"
| "placeholder_handler KnowledgeQuery = handleKnowledgeQuery"
| "placeholder_handler RoutineGenerator = handleRoutineGenerator"
| "placeholder_handler AtomSpaceQuery = handleAtomSpaceQuery"
| "placeholder_handler PLNReasoning = handlePLNReasoning"
| "placeholder_handler PatternMining = handlePatternMining"

text \<open>The message a response carries, when its body is \<open>{ message: ... }\<close>.\<close>

fun message_of :: "response \<Rightarrow> string option" where
  "message_of res =
     (case sent res of
        Some (JObject [(k, JString m)]) \<Rightarrow> (if k = ''message'' then Some m else None)
      | _ \<Rightarrow> None)"

subsection \<open>Routes and dispatch\<close>

text \<open>
  The routes the \<open>setup...\<close> methods register, in registration order: method, path
  and handler. Handlers written inline in the source are named after their route.
\<close>

datatype route_handler =
    GatewayInfo | Health | GatewayConfig
  | OpenAIChat | Placeholder placeholder | ServiceDiscovery
  | SkincareConsultant | AgentCapabilities
  | DataServices
  | ImageAnalysis | ToolsAvailable
  | CognitiveStatus
  | Metrics | Policies
  | Docs

definition routes :: "(string \<times> string \<times> route_handler) list" where
  "routes =
     [(''GET'', ''/gateway/info'', GatewayInfo),
      (''GET'', ''/health'', Health),
      (''GET'', ''/gateway/config'', GatewayConfig),
      (''POST'', ''/v1/openai/chat/completions'', OpenAIChat),
      (''POST'', ''/v1/azure-openai/chat/completions'', Placeholder AzureOpenAIChat),
      (''POST'', ''/v1/cognitive/analyze'', Placeholder CognitiveAnalysis),
      (''GET'', ''/v1/services'', ServiceDiscovery),
      (''POST'', ''/agents/skincare-consultant'', SkincareConsultant),
      (''POST'', ''/agents/dermatology-assistant'', Placeholder DermatologyAssistant),
      (''POST'', ''/agents/product-advisor'', Placeholder ProductAdvisor),
      (''GET'', ''/agents/capabilities'', AgentCapabilities),
      (''GET'', ''/data/vectors/search'', Placeholder VectorSearch),
      (''POST'', ''/data/knowledge/query'', Placeholder KnowledgeQuery),
      (''GET'', ''/data/services'', DataServices),
      (''POST'', ''/tools/image-analysis'', ImageAnalysis),
      (''POST'', ''/tools/routine-generator'', Placeholder RoutineGenerator),
      (''GET'', ''/tools/available'', ToolsAvailable),
      (''GET'', ''/cognitive/atomspace'', Placeholder AtomSpaceQuery),
      (''POST'', ''/cognitive/reasoning'', Placeholder PLNReasoning),
      (''GET'', ''/cognitive/patterns'', Placeholder PatternMining),
      (''GET'', ''/cognitive/status'', CognitiveStatus),
      (''GET'', ''/metrics'', Metrics),
      (''GET'', ''/policies'', Policies),
      (''GET'', ''/docs'', Docs)]"

text \<open>
  \<open>app.use('/v1/*', authenticateRequest)\<close> and its three siblings: the middleware
  runs for the paths under these four prefixes. Express compares paths without regard to
  case.
\<close>

definition protected :: "string \<Rightarrow> bool" where
  "protected p =
     (startsWith (toLowerCase p) ''/v1/'' \<or> startsWith (toLowerCase p) ''/agents/''
      \<or> startsWith (toLowerCase p) ''/data/'' \<or> startsWith (toLowerCase p) ''/tools/'')"

text \<open>
  A route matches a request with its method (a \<open>GET\<close> route also serves \<open>HEAD\<close>) and
  its path, without regard to case and with or without a slash at the end.
\<close>

definition route_matches :: "request \<Rightarrow> string \<times> string \<times> route_handler \<Rightarrow> bool" where
  "route_matches req route =
     (case route of (m, p, h) \<Rightarrow>
        (req_method req = m \<or> (m = ''GET'' \<and> req_method req = ''HEAD''))
        \<and> (toLowerCase (req_path req) = p \<or> toLowerCase (req_path req) = p @ ''/''))"

text \<open>
  One request through the application, in the order of \<open>setupMiddleware\<close>:
  \<^item> \<open>helmet\<close> sets headers and passes the request on;
  \<^item> \<open>cors\<close> answers an \<open>OPTIONS\<close> request itself, with status 204, and passes any
    other request on;
  \<^item> the body parsers pass the request on, or raise an error that the error handler
    answers with the error's status;
  \<^item> the logging middleware passes the request on;
  \<^item> on a protected path, \<open>authenticateRequest\<close>; an exception it throws is answered
    by the error handler with status 500;
  \<^item> the first route that matches.
  The outcome is the response of a middleware or of the error handler, or the handler
  that is invoked and the request it gets, or no route.
\<close>

datatype outcome = Responded response | Invoked route_handler request | NoRoute

definition find_route :: "request \<Rightarrow> outcome" where
  "find_route req =
     (case find (route_matches req) routes of
        Some (m, p, h) \<Rightarrow> Invoked h req
      | None \<Rightarrow> NoRoute)"

definition dispatch :: "request \<Rightarrow> outcome" where
  "dispatch req =
     (if toLowerCase (req_method req) = ''options'' then
        Responded \<lparr>statusCode = 204, sent = None\<rparr>
      else
        (case req_body req of
           Rejected status \<Rightarrow> Responded \<lparr>statusCode = status, sent = None\<rparr>
         | Parsed b \<Rightarrow>
             (if protected (req_path req) then
                (case authenticateRequest req new_response of
                   Answered res \<Rightarrow> Responded res
                 | Thrown \<Rightarrow> Responded \<lparr>statusCode = 500, sent = None\<rparr>
                 | Next req' \<Rightarrow> find_route req')
              else find_route req)))"

section \<open>Cognitive layer (browser script)\<close>

text \<open>
  The data \<open>sendToAtomSpace\<close> stores: an atom with a name and the page's attributes.
\<close>

record entity =
  entity_type :: string
  entity_value :: string

record relationship =
  rel_type :: string
  rel_source :: string
  rel_target :: string
  rel_strength :: rat

record attributes =
  attr_url :: string
  attr_title :: string
  attr_domain :: string
  attr_keywords :: "string list"
  attr_entities :: "entity list"
  attr_relationships :: "relationship list"

record atom_data =
  atom_type :: string
  atom_name :: string
  truth_strength :: rat
  truth_confidence :: rat
  atom_attributes :: attributes

record nav_entry =
  nav_path :: string
  nav_timestamp :: nat

text \<open>
  \<open>localStorage\<close>, with the two keys the script uses. A key that was never set is
  \<open>None\<close>, which the script reads as \<open>'[]'\<close>; a key that is set holds the JSON of a
  list, as \<open>storeKnowledgeNode\<close> and \<open>predictUserJourney\<close> write it.
\<close>

record local_storage =
  skintwin_knowledge :: "atom_data list option"
  skintwin_navigation :: "nav_entry list option"

definition stored_list :: "'a list option \<Rightarrow> 'a list" where
  "stored_list v = (case v of None \<Rightarrow> [] | Some xs \<Rightarrow> xs)"

record reasoning_result =
  node :: string
  relevance :: rat
  result_attributes :: attributes

text \<open>
  \<open>performReasoning(query)\<close>. \<open>Math.random()\<close> is a supply of numbers, \<open>random i\<close>
  being the value of the call number \<open>i\<close>. The \<open>forEach\<close> visits the stored list once,
  from the first node to the last, pushing a result for every node one of whose keywords
  the lower-cased query includes. \<open>sort\<close> with the comparator
  \<open>b.relevance - a.relevance\<close> is a stable sort by decreasing relevance.
\<close>

definition node_matches :: "string \<Rightarrow> atom_data \<Rightarrow> bool" where
  "node_matches query n =
     list_ex (\<lambda>keyword. includes_str (toLowerCase query) (toLowerCase keyword))
       (attr_keywords (atom_attributes n))"

definition reasoning_visit ::
  "(nat \<Rightarrow> rat) \<Rightarrow> string \<Rightarrow> reasoning_result list \<times> nat \<Rightarrow> atom_data
     \<Rightarrow> reasoning_result list \<times> nat" where
  "reasoning_visit random query acc n =
     (case acc of (results, calls) \<Rightarrow>
        if node_matches query n
        then (results @ [\<lparr>node = atom_name n,
                          relevance = random calls * (8 / 10) + 2 / 10,
                          result_attributes = atom_attributes n\<rparr>], calls + 1)
        else (results, calls))"

definition reasoning_scan ::
  "(nat \<Rightarrow> rat) \<Rightarrow> string \<Rightarrow> atom_data list \<Rightarrow> reasoning_result list" where
  "reasoning_scan random query knowledge =
     fst (foldl (reasoning_visit random query) ([], 0) knowledge)"

definition performReasoning ::
  "(nat \<Rightarrow> rat) \<Rightarrow> local_storage \<Rightarrow> string \<Rightarrow> reasoning_result list" where
  "performReasoning random storage query =
     (let knowledge = stored_list (skintwin_knowledge storage);
          results = reasoning_scan random query knowledge
      in sort_key (\<lambda>r. - relevance r) results)"

text \<open>
  A stored knowledge list of three pages, and a supply of random numbers whose first value
  is 1/4 and whose other values are 3/4.
\<close>

definition example_page :: "string \<Rightarrow> string list \<Rightarrow> atom_data" where
  "example_page name kws =
     \<lparr>atom_type = ''ConceptNode'', atom_name = name,
      truth_strength = 9 / 10, truth_confidence = 8 / 10,
      atom_attributes =
        \<lparr>attr_url = ''/'', attr_title = ''t'', attr_domain = ''dermatology'',
         attr_keywords = kws, attr_entities = [], attr_relationships = []\<rparr>\<rparr>"

definition example_storage :: local_storage where
  "example_storage =
     \<lparr>skintwin_knowledge =
        Some [example_page ''Page_a'' [''skin'', ''retinol''],
              example_page ''Page_b'' [''acne''],
              example_page ''Page_c'' [''serum'']],
      skintwin_navigation = None\<rparr>"

definition example_random :: "nat \<Rightarrow> rat" where
  "example_random i = (if i = 0 then 1 / 4 else 3 / 4)"

text \<open>
  \<open>predictUserJourney(currentPath)\<close>, at the time \<open>now\<close> of \<open>Date.now()\<close>: the new
  storage, and the history it hands to \<open>generateNavigationPredictions\<close>, which computes
  the returned predictions from that list and does not touch the storage.
\<close>

definition predictUserJourney ::
  "local_storage \<Rightarrow> string \<Rightarrow> nat \<Rightarrow> local_storage \<times> nav_entry list" where
  "predictUserJourney storage currentPath now =
     (let h0 = stored_list (skintwin_navigation storage);
          h1 = h0 @ [\<lparr>nav_path = currentPath, nav_timestamp = now\<rparr>];
          navigationHistory = (if length h1 > 50 then drop (length h1 - 50) h1 else h1)
      in (storage\<lparr>skintwin_navigation := Some navigationHistory\<rparr>, navigationHistory))"

section \<open>Site builder\<close>

subsection \<open>String methods used by the builder\<close>

text \<open>
  \<open>indexOf(c)\<close> is \<open>None\<close> for JavaScript's -1. \<open>split('\n')\<close> always returns at
  least one piece. \<open>trim\<close> removes the white space and line terminators at both ends
  (below 256: the code units 9 to 13, 32 and 160).
\<close>

fun indexOf :: "string \<Rightarrow> char \<Rightarrow> nat option" where
  "indexOf [] c = None"
| "indexOf (x # xs) c = (if x = c then Some 0 else map_option Suc (indexOf xs c))"

fun split_on :: "char \<Rightarrow> string \<Rightarrow> string list" where
  "split_on sep [] = [[]]"
| "split_on sep (c # cs) =
     (if c = sep then [] # split_on sep cs
      else (case split_on sep cs of
              piece # pieces \<Rightarrow> (c # piece) # pieces
            | [] \<Rightarrow> [[c]]))"

definition is_space :: "char \<Rightarrow> bool" where
  "is_space c = (let n = (of_char c :: nat) in (9 \<le> n \<and> n \<le> 13) \<or> n = 32 \<or> n = 160)"

definition trim :: "string \<Rightarrow> string" where
  "trim s = rev (dropWhile is_space (rev (dropWhile is_space s)))"

subsection \<open>Front matter\<close>

text \<open>
  \<open>value.replace(/^["']|["']$/g, '')\<close>: a quote character at the start is removed,
  and a quote character at the end is removed (a lone quote is removed once).
\<close>

definition is_quote :: "char \<Rightarrow> bool" where
  "is_quote c = (c = CHR 0x22 \<or> c = CHR 0x27)"

definition strip_quotes :: "string \<Rightarrow> string" where
  "strip_quotes v =
     (let v1 = (case v of [] \<Rightarrow> [] | c # cs \<Rightarrow> if is_quote c then cs else v)
      in if v1 \<noteq> [] \<and> is_quote (last v1) then butlast v1 else v1)"

text \<open>
  The body of the \<open>forEach\<close> over the lines of the block: a line whose first colon is at
  a positive index assigns \<open>frontmatter[key] = value\<close>; any other line does nothing.
\<close>

definition frontmatter_line :: "(string \<rightharpoonup> string) \<Rightarrow> string \<Rightarrow> (string \<rightharpoonup> string)" where
  "frontmatter_line fm line =
     (case indexOf line CHR '':'' of
        None \<Rightarrow> fm
      | Some colonIndex \<Rightarrow>
          (if colonIndex > 0
           then assign_property fm (trim (take colonIndex line))
                  (strip_quotes (trim (drop (colonIndex + 1) line)))
           else fm))"

text \<open>
  The first occurrence of \<open>sep\<close> in a string: the text before it and the text after it.
  This is how the lazy group of \<open>/^---\n([\s\S]*?)\n---\n([\s\S]*)$/\<close> ends: at the first
  place, after the opening line, where \<open>\n---\n\<close> stands; the second group takes all
  the rest.
\<close>

fun split_at_first :: "string \<Rightarrow> string \<Rightarrow> (string \<times> string) option" where
  "split_at_first sep [] = (if sep = [] then Some ([], []) else None)"
| "split_at_first sep (c # cs) =
     (if startsWith (c # cs) sep then Some ([], drop (length sep) (c # cs))
      else map_option (\<lambda>(prior, after). (c # prior, after)) (split_at_first sep cs))"

record parsed_page =
  frontmatter :: "string \<rightharpoonup> string"
  body :: string

definition parseFrontmatter :: "string \<Rightarrow> parsed_page" where
  "parseFrontmatter content =
     (if startsWith content ''---\<newline>'' then
        (case split_at_first ''\<newline>---\<newline>'' (drop 4 content) of
           Some (frontmatterText, rest) \<Rightarrow>
             \<lparr>frontmatter = foldl frontmatter_line Map.empty
                              (split_on CHR ''\<newline>'' frontmatterText),
              body = rest\<rparr>
         | None \<Rightarrow> \<lparr>frontmatter = Map.empty, body = content\<rparr>)
      else \<lparr>frontmatter = Map.empty, body = content\<rparr>)"

text \<open>
  The reading the description of \<open>parseFrontmatter\<close> suggests, line by line: a content
  begins with a front matter block when its first line is \<open>---\<close> and a later line is
  \<open>---\<close> too; the block is the lines between the two, and the body is the text after
  the closing line.
\<close>

fun join_lines :: "string list \<Rightarrow> string" where
  "join_lines [] = []"
| "join_lines [l] = l"
| "join_lines (l # ls) = l @ CHR ''\<newline>'' # join_lines ls"

definition delimited_block :: "string \<Rightarrow> (string list \<times> string) option" where
  "delimited_block content =
     (case split_on CHR ''\<newline>'' content of
        [] \<Rightarrow> None
      | first # others \<Rightarrow>
          (if first = ''---'' \<and> ''---'' \<in> set others
           then Some (takeWhile (\<lambda>l. l \<noteq> ''---'') others,
                      join_lines (tl (dropWhile (\<lambda>l. l \<noteq> ''---'') others)))
           else None))"

subsection \<open>Template substitution\<close>

text \<open>
  The replacement text of \<open>String.prototype.replace\<close> for a pattern without capture
  groups: \<open>$$\<close> stands for a dollar sign, \<open>$&\<close> for the match, \<open>$`\<close> for the text
  before the match and \<open>$'\<close> for the text after it; any other dollar sign is kept.
\<close>

fun getSubstitution :: "string \<Rightarrow> string \<Rightarrow> string \<Rightarrow> string \<Rightarrow> string" where
  "getSubstitution matched prior after (c # d # rest) =
     (if c = CHR ''$'' then
        (if d = CHR ''$'' then CHR ''$'' # getSubstitution matched prior after rest
         else if d = CHR ''&'' then matched @ getSubstitution matched prior after rest
         else if d = CHR 0x60 then prior @ getSubstitution matched prior after rest
         else if d = CHR 0x27 then after @ getSubstitution matched prior after rest
         else c # getSubstitution matched prior after (d # rest))
      else c # getSubstitution matched prior after (d # rest))"
| "getSubstitution matched prior after cs = cs"

text \<open>
  \<open>s.replace(new RegExp(pat, 'g'), replacement)\<close> for a pattern that matches the
  literal text \<open>pat\<close>, as \<open>{{key}}\<close> does: the string is scanned from the left, every
  match is replaced and the scan goes on after it. \<open>prior\<close> is the text already
  scanned.
\<close>

function replace_from :: "string \<Rightarrow> string \<Rightarrow> string \<Rightarrow> string \<Rightarrow> string" where
  "replace_from pat replacement prior s =
     (if s = [] then []
      else if pat \<noteq> [] \<and> startsWith s pat then
        getSubstitution pat prior (drop (length pat) s) replacement
          @ replace_from pat replacement (prior @ pat) (drop (length pat) s)
      else hd s # replace_from pat replacement (prior @ [hd s]) (tl s))"
  by pat_completeness auto
termination
  by (relation "measure (\<lambda>(pat, replacement, prior, s). length s)") auto

declare replace_from.simps [simp del]

definition replace_global :: "string \<Rightarrow> string \<Rightarrow> string \<Rightarrow> string" where
  "replace_global pat replacement s = replace_from pat replacement [] s"

record page_variables =
  v_title :: string
  v_description :: string
  v_content :: string
  v_path :: string
  v_schemaType :: string

text \<open>\<open>Object.entries(variables)\<close>: the five properties in the order they are written.\<close>

definition entries :: "page_variables \<Rightarrow> (string \<times> string) list" where
  "entries variables =
     [(''title'', v_title variables),
      (''description'', v_description variables),
      (''content'', v_content variables),
      (''path'', v_path variables),
      (''schemaType'', v_schemaType variables)]"

definition processTemplate :: "string \<Rightarrow> page_variables \<Rightarrow> string" where
  "processTemplate template variables =
     foldl (\<lambda>html (key, val). replace_global (''{{'' @ key @ ''}}'') val html)
       template (entries variables)"

subsection \<open>Templates as text and placeholders\<close>

text \<open>
  The reading of a template that the description of \<open>processTemplate\<close> has in mind: a
  sequence of characters of text and of placeholders \<open>{{key}}\<close> for the five page
  variables. \<open>render\<close> is the template string, \<open>fill\<close> is the string with every placeholder
  replaced by the value of its variable and the text unchanged. \<open>subst_slot\<close> replaces
  the placeholders of one key only. In a \<open>well_formed\<close> sequence an opening brace of the
  text is never directly followed by another opening brace (of the text or of a
  placeholder).
\<close>

datatype slot = Title | Description | Content | Path | SchemaType

fun slot_key :: "slot \<Rightarrow> string" where
  "slot_key Title = ''title''"
| "slot_key Description = ''description''"
| "slot_key Content = ''content''"
| "slot_key Path = ''path''"
| "slot_key SchemaType = ''schemaType''"

fun slot_value :: "page_variables \<Rightarrow> slot \<Rightarrow> string" where
  "slot_value variables Title = v_title variables"
| "slot_value variables Description = v_description variables"
| "slot_value variables Content = v_content variables"
| "slot_value variables Path = v_path variables"
| "slot_value variables SchemaType = v_schemaType variables"

definition placeholder :: "slot \<Rightarrow> string" where
  "placeholder k = ''{{'' @ slot_key k @ ''}}''"

datatype segment = Text char | Slot slot

fun render :: "segment list \<Rightarrow> string" where
  "render [] = []"
| "render (Text c # rest) = c # render rest"
| "render (Slot k # rest) = placeholder k @ render rest"

fun fill :: "page_variables \<Rightarrow> segment list \<Rightarrow> string" where
  "fill variables [] = []"
| "fill variables (Text c # rest) = c # fill variables rest"
| "fill variables (Slot k # rest) = slot_value variables k @ fill variables rest"

fun subst_slot :: "slot \<Rightarrow> string \<Rightarrow> segment list \<Rightarrow> segment list" where
  "subst_slot k v [] = []"
| "subst_slot k v (Text c # rest) = Text c # subst_slot k v rest"
| "subst_slot k v (Slot k' # rest) =
     (if k' = k then map Text v @ subst_slot k v rest else Slot k' # subst_slot k v rest)"

fun well_formed :: "segment list \<Rightarrow> bool" where
  "well_formed [] = True"
| "well_formed [Text c] = True"
| "well_formed (Text c # s # rest) =
     ((c = CHR ''{'' \<longrightarrow> (case s of Text d \<Rightarrow> d \<noteq> CHR ''{'' | Slot k \<Rightarrow> False))
      \<and> well_formed (s # rest))"
| "well_formed (Slot k # rest) = well_formed rest"

subsection \<open>Paths and the file system\<close>

text \<open>
  A path is the list of its components below the root. \<open>path.join(p, seg)\<close> for a
  segment without a slash: an empty segment and \<open>.\<close> change nothing, \<open>..\<close> goes up.
  \<open>path.basename(name, ext)\<close> for a name without a slash.
\<close>

type_synonym path = "string list"

definition path_join :: "path \<Rightarrow> string \<Rightarrow> path" where
  "path_join p seg =
     (if seg = [] \<or> seg = ''.'' then p
      else if seg = ''..'' then butlast p
      else p @ [seg])"

definition basename :: "string \<Rightarrow> string \<Rightarrow> string" where
  "basename name ext =
     (if ext \<noteq> [] \<and> length ext \<le> length name then
        (if ext = name then []
         else if endsWith name ext then take (length name - length ext) name
         else name)
      else name)"

text \<open>
  What the build writes. The long literal texts of the source (site map, robots file,
  knowledge index, API page) are named, with the values spliced into them, not spelled
  out.
\<close>

datatype document =
    Html string
  | SitemapXml string string
  | RobotsTxt string
  | CognitiveIndexJson string
  | ApiDocHtml

datatype fs_op =
    Remove path
  | EnsureDir path
  | Copy path path
  | WriteFile path document

text \<open>
  The world the build runs in: the directory of the script, what \<open>readdir\<close> and
  \<open>readFile\<close> return (\<open>None\<close> when they throw), which of the other operations throw,
  the \<open>marked\<close> library, and the clock.
\<close>

record build_env =
  dirname :: path
  readdir :: "path \<Rightarrow> string list option"
  readFile :: "path \<Rightarrow> string option"
  fails :: "fs_op \<Rightarrow> bool"
  marked :: "string \<Rightarrow> string"
  isoDate :: string
  isoNow :: string

definition publicDir :: "build_env \<Rightarrow> path" where
  "publicDir env = path_join (path_join (dirname env) ''..'') ''public''"

definition contentDir :: "build_env \<Rightarrow> path" where
  "contentDir env = path_join (path_join (dirname env) ''..'') ''content''"

definition templatesDir :: "build_env \<Rightarrow> path" where
  "templatesDir env = path_join (path_join (dirname env) ''..'') ''templates''"

definition assetsDir :: "build_env \<Rightarrow> path" where
  "assetsDir env = path_join (path_join (dirname env) ''..'') ''assets''"

definition siteConfig_baseUrl :: string where
  "siteConfig_baseUrl = ''https://regima.site''"

definition siteConfig_title :: string where
  "siteConfig_title = ''R'' @ [CHR 0xE9] @ ''gimA Zone''"

definition siteConfig_description :: string where
  "siteConfig_description = ''Advanced skincare solutions powered by cognitive architecture''"

text \<open>
  A run: the operations performed so far, and whether an exception is in flight. Once
  one is thrown, the rest of the \<open>try\<close> block is skipped.
\<close>

record run =
  performed :: "fs_op list"
  thrown :: bool

definition throw :: "run \<Rightarrow> run" where
  "throw r = r\<lparr>thrown := True\<rparr>"

definition perform :: "build_env \<Rightarrow> fs_op \<Rightarrow> run \<Rightarrow> run" where
  "perform env act r =
     (if thrown r then r
      else if fails env act then throw r
      else r\<lparr>performed := performed r @ [act]\<rparr>)"

subsection \<open>The build\<close>

definition copyAssets :: "build_env \<Rightarrow> run \<Rightarrow> run" where
  "copyAssets env r = perform env (Copy (assetsDir env) (path_join (publicDir env) ''assets'')) r"

text \<open>
  The HTML of a page, from the content of its file and the layout template;
  \<open>or_default a d\<close> is \<open>a || d\<close> for a default \<open>d\<close> that is not empty.
\<close>

definition or_default :: "string option \<Rightarrow> string \<Rightarrow> string" where
  "or_default a d = (case a of None \<Rightarrow> d | Some v \<Rightarrow> (if v = [] then d else v))"

definition page_html :: "build_env \<Rightarrow> string \<Rightarrow> string \<Rightarrow> string" where
  "page_html env content template =
     (let parsed = parseFrontmatter content;
          htmlContent = marked env (body parsed)
      in processTemplate template
           \<lparr>v_title = or_default (frontmatter parsed ''title'') siteConfig_title,
            v_description = or_default (frontmatter parsed ''description'') siteConfig_description,
            v_content = htmlContent,
            v_path = or_default (frontmatter parsed ''path'') ''/'',
            v_schemaType = or_default (frontmatter parsed ''schemaType'') ''WebPage''\<rparr>)"

definition buildPage :: "build_env \<Rightarrow> string \<Rightarrow> run \<Rightarrow> run" where
  "buildPage env pageFile r =
     (if thrown r then r
      else
        (case readFile env (path_join (path_join (contentDir env) ''pages'') pageFile) of
           None \<Rightarrow> throw r
         | Some content \<Rightarrow>
             (case readFile env (path_join (templatesDir env) ''layout.html'') of
                None \<Rightarrow> throw r
              | Some template \<Rightarrow>
                  (let html = page_html env content template in
                   if pageFile = ''index.md'' then
                     perform env (WriteFile (path_join (publicDir env) ''index.html'') (Html html)) r
                   else
                     (let pageName = basename pageFile ''.md'';
                          pageDir = path_join (publicDir env) pageName
                      in perform env (WriteFile (path_join pageDir ''index.html'') (Html html))
                           (perform env (EnsureDir pageDir) r))))))"

definition buildPages :: "build_env \<Rightarrow> run \<Rightarrow> run" where
  "buildPages env r =
     (if thrown r then r
      else
        (case readdir env (path_join (contentDir env) ''pages'') of
           None \<Rightarrow> throw r
         | Some pages \<Rightarrow>
             foldl (\<lambda>r' pageFile. if endsWith pageFile ''.md'' then buildPage env pageFile r' else r')
               r pages))"

definition generateSitemap :: "build_env \<Rightarrow> run \<Rightarrow> run" where
  "generateSitemap env r =
     perform env (WriteFile (path_join (publicDir env) ''sitemap.xml'')
                    (SitemapXml siteConfig_baseUrl (isoDate env))) r"

definition generateRobots :: "build_env \<Rightarrow> run \<Rightarrow> run" where
  "generateRobots env r =
     perform env (WriteFile (path_join (publicDir env) ''robots.txt'')
                    (RobotsTxt siteConfig_baseUrl)) r"

definition generateCognitiveIndex :: "build_env \<Rightarrow> run \<Rightarrow> run" where
  "generateCognitiveIndex env r =
     (let cognitiveDir = path_join (publicDir env) ''cognitive'' in
      perform env (WriteFile (path_join cognitiveDir ''api.html'') ApiDocHtml)
        (perform env (WriteFile (path_join cognitiveDir ''index.json'')
                        (CognitiveIndexJson (isoNow env)))
           (perform env (EnsureDir cognitiveDir) r)))"

text \<open>
  \<open>build()\<close>: the operations performed, and the exit code (1 from \<open>process.exit(1)\<close> in
  the \<open>catch\<close>, 0 when the \<open>try\<close> block runs to its end).
\<close>

definition build :: "build_env \<Rightarrow> fs_op list \<times> nat" where
  "build env =
     (let r0 = \<lparr>performed = [], thrown = False\<rparr>;
          r1 = perform env (Remove (publicDir env)) r0;
          r2 = perform env (EnsureDir (publicDir env)) r1;
          r3 = copyAssets env r2;
          r4 = buildPages env r3;
          r5 = generateSitemap env r4;
          r6 = generateRobots env r5;
          r7 = generateCognitiveIndex env r6
      in (performed r7, if thrown r7 then 1 else 0))"

subsection \<open>What a build is expected to do\<close>

text \<open>
  The operations expected for one page file \<open>x.md\<close>, from the description of the
  build: \<open>index.md\<close> is written to \<open>index.html\<close> in the output directory, any other page
  to \<open>index.html\<close> in the directory \<open>x\<close> below it, created first. \<open>target\<close> is the path
  an operation creates, removes or writes.
\<close>

definition page_ops :: "build_env \<Rightarrow> string \<Rightarrow> fs_op list" where
  "page_ops env pageFile =
     (case (readFile env (path_join (path_join (contentDir env) ''pages'') pageFile),
            readFile env (path_join (templatesDir env) ''layout.html'')) of
        (Some content, Some template) \<Rightarrow>
          (let x = take (length pageFile - 3) pageFile in
           if pageFile = ''index.md'' then
             [WriteFile (path_join (publicDir env) ''index.html'')
                (Html (page_html env content template))]
           else
             [EnsureDir (path_join (publicDir env) x),
              WriteFile (path_join (path_join (publicDir env) x) ''index.html'')
                (Html (page_html env content template))])
      | _ \<Rightarrow> [])"

fun target :: "fs_op \<Rightarrow> path" where
  "target (Remove p) = p"
| "target (EnsureDir p) = p"
| "target (Copy src dst) = dst"
| "target (WriteFile p d) = p"

text \<open>
  Three worlds to run the build in, with the script in \<open>/site/scripts\<close>: one with a page
  \<open>about.md\<close> and no layout template, one with a page file named \<open>...md\<close>, and one with
  the pages \<open>index.md\<close> and \<open>about.md\<close> and a text file, where nothing fails.
\<close>

definition env_without_layout :: build_env where
  "env_without_layout =
     \<lparr>dirname = [''site'', ''scripts''],
      readdir = (\<lambda>p. if p = [''site'', ''content'', ''pages''] then Some [''about.md''] else None),
      readFile = (\<lambda>p. if p = [''site'', ''content'', ''pages'', ''about.md'']
                      then Some ''# About'' else None),
      fails = (\<lambda>act. False),
      marked = (\<lambda>s. s),
      isoDate = ''2024-01-01'',
      isoNow = ''2024-01-01T00:00:00.000Z''\<rparr>"

definition env_with_dots_page :: build_env where
  "env_with_dots_page =
     \<lparr>dirname = [''site'', ''scripts''],
      readdir = (\<lambda>p. if p = [''site'', ''content'', ''pages''] then Some [''...md''] else None),
      readFile = (\<lambda>p. if p = [''site'', ''content'', ''pages'', ''...md''] then Some ''x''
                      else if p = [''site'', ''templates'', ''layout.html'']
                      then Some ''{{content}}'' else None),
      fails = (\<lambda>act. False),
      marked = (\<lambda>s. s),
      isoDate = ''2024-01-01'',
      isoNow = ''2024-01-01T00:00:00.000Z''\<rparr>"

definition env_two_pages :: build_env where
  "env_two_pages =
     \<lparr>dirname = [''site'', ''scripts''],
      readdir = (\<lambda>p. if p = [''site'', ''content'', ''pages'']
                     then Some [''index.md'', ''notes.txt'', ''about.md''] else None),
      readFile = (\<lambda>p. if p = [''site'', ''content'', ''pages'', ''index.md''] then Some ''home''
                      else if p = [''site'', ''content'', ''pages'', ''about.md'']
                      then Some ''---\<newline>title: About\<newline>---\<newline>us''
                      else if p = [''site'', ''templates'', ''layout.html'']
                      then Some ''{{title}}:{{content}}'' else None),
      fails = (\<lambda>act. False),
      marked = (\<lambda>s. s),
      isoDate = ''2024-01-01'',
      isoNow = ''2024-01-01T00:00:00.000Z''\<rparr>"

section \<open>Properties of the string methods\<close>

lemma startsWith_prefix: "startsWith s search \<longleftrightarrow> prefix search s"
  unfolding startsWith_def
  by (metis prefix_def append_take_drop_id append_eq_conv_conj)

lemma includes_sublist: "includes_str s search \<longleftrightarrow> sublist search s"
  by (induction s) (auto simp: startsWith_prefix sublist_Cons_right)

section \<open>Properties of assignment to an object\<close>

lemma assign_property_other: "t \<noteq> s \<Longrightarrow> assign_property obj s v t = obj t"
  by (simp add: assign_property_def)

section \<open>Properties of the front matter parser\<close>

text \<open>
  \<open>split_at_first\<close> finds an occurrence of the separator when there is one, and the
  first one.
\<close>

lemma split_at_first_Some:
  "split_at_first sep s = Some (a, b) \<Longrightarrow> s = a @ sep @ b"
proof (induction s arbitrary: a)
  case Nil
  then show ?case by (simp split: if_splits)
next
  case (Cons c cs)
  show ?case
  proof (cases "startsWith (c # cs) sep")
    case True
    with Cons.prems have "a = []" "b = drop (length sep) (c # cs)" by simp_all
    moreover from True have "take (length sep) (c # cs) = sep" by (simp add: startsWith_def)
    ultimately show ?thesis by (metis append_Nil append_take_drop_id)
  next
    case False
    with Cons.prems obtain a' where "split_at_first sep cs = Some (a', b)" "a = c # a'"
      by auto
    with Cons.IH show ?thesis by simp
  qed
qed

lemma split_at_first_None:
  "split_at_first sep s = None \<Longrightarrow> \<not> sublist sep s"
proof (induction s)
  case Nil
  then show ?case by (simp split: if_splits)
next
  case (Cons c cs)
  then show ?case
    by (auto simp: sublist_Cons_right startsWith_prefix split: if_splits)
qed

lemma split_at_first_first:
  assumes "sep \<noteq> []" "\<not> sublist sep (a @ butlast sep)"
  shows "split_at_first sep (a @ sep @ b) = Some (a, b)"
  using assms
proof (induction a)
  case Nil
  then show ?case
    by (cases sep) (simp_all add: startsWith_def)
next
  case (Cons c a)
  have n: "\<not> startsWith (c # a @ sep @ b) sep"
  proof
    assume "startsWith (c # a @ sep @ b) sep"
    then have "take (length sep) ((c # a) @ sep @ b) = sep" by (simp add: startsWith_def)
    moreover have "length sep \<le> length ((c # a) @ butlast sep)" by simp
    then have "take (length sep) ((c # a) @ sep @ b) = take (length sep) ((c # a) @ butlast sep)"
      using Cons.prems(1)
      by (metis append_butlast_last_id append.assoc take_append take_all_iff order_refl append_Nil2 take_0 diff_is_0_eq)
    ultimately have "prefix sep ((c # a) @ butlast sep)"
      by (metis take_is_prefix)
    with Cons.prems(2) show False by (auto dest: prefix_imp_sublist)
  qed
  from Cons.prems(2) have "\<not> sublist sep (a @ butlast sep)"
    by (auto simp: sublist_Cons_right)
  with Cons.IH Cons.prems(1) have "split_at_first sep (a @ sep @ b) = Some (a, b)" by simp
  with n show ?case by simp
qed


lemma frontmatter_line_other:
  "(\<forall>j. indexOf l CHR '':'' = Some j \<and> 0 < j \<longrightarrow> trim (take j l) \<noteq> k)
     \<Longrightarrow> frontmatter_line m l k = m k"
  by (auto simp: frontmatter_line_def assign_property_def split: option.splits)

lemma foldl_frontmatter_line_other:
  "(\<forall>l \<in> set ls. \<forall>j. indexOf l CHR '':'' = Some j \<and> 0 < j \<longrightarrow> trim (take j l) \<noteq> k)
     \<Longrightarrow> foldl frontmatter_line m ls k = m k"
proof (induction ls arbitrary: m)
  case Nil
  then show ?case by simp
next
  case (Cons l ls)
  then have "foldl frontmatter_line (frontmatter_line m l) ls k = frontmatter_line m l k"
    by simp
  also have "\<dots> = m k"
    using Cons.prems by (intro frontmatter_line_other) simp
  finally show ?case by simp
qed

lemma frontmatter_line_assigns:
  "indexOf line CHR '':'' = Some i \<Longrightarrow> 0 < i \<Longrightarrow> trim (take i line) \<noteq> ''__proto__'' \<Longrightarrow>
     frontmatter_line m line (trim (take i line)) = Some (strip_quotes (trim (drop (i + 1) line)))"
  by (simp add: frontmatter_line_def assign_property_def)

lemma foldl_frontmatter_line_last:
  assumes "indexOf line CHR '':'' = Some i" "0 < i" "trim (take i line) \<noteq> ''__proto__''"
    and "\<forall>l \<in> set post. \<forall>j. indexOf l CHR '':'' = Some j \<and> 0 < j
            \<longrightarrow> trim (take j l) \<noteq> trim (take i line)"
  shows "foldl frontmatter_line m (pre @ line # post) (trim (take i line))
           = Some (strip_quotes (trim (drop (i + 1) line)))"
proof -
  have "foldl frontmatter_line m (pre @ line # post) (trim (take i line))
          = frontmatter_line (foldl frontmatter_line m pre) line (trim (take i line))"
    using foldl_frontmatter_line_other [OF assms(4)] by simp
  with frontmatter_line_assigns [OF assms(1,2,3)] show ?thesis by simp
qed

lemma parseFrontmatter_no_block:
  assumes "\<nexists>fm rest. content = ''---\<newline>'' @ fm @ ''\<newline>---\<newline>'' @ rest"
  shows "parseFrontmatter content = \<lparr>frontmatter = Map.empty, body = content\<rparr>"
proof (cases "startsWith content ''---\<newline>''")
  case False
  then show ?thesis by (simp add: parseFrontmatter_def)
next
  case True
  then have "take 4 content = ''---\<newline>''" by (simp add: startsWith_def eval_nat_numeral)
  then have c: "content = ''---\<newline>'' @ drop 4 content"
    by (metis append_take_drop_id)
  have "split_at_first ''\<newline>---\<newline>'' (drop 4 content) = None"
  proof (rule ccontr)
    assume "split_at_first ''\<newline>---\<newline>'' (drop 4 content) \<noteq> None"
    then obtain a b where "split_at_first ''\<newline>---\<newline>'' (drop 4 content) = Some (a, b)"
      by auto
    from split_at_first_Some [OF this] c
    have "content = ''---\<newline>'' @ a @ ''\<newline>---\<newline>'' @ b" by simp
    with assms show False by blast
  qed
  with True show ?thesis by (simp add: parseFrontmatter_def)
qed

lemma parseFrontmatter_block:
  assumes "content = ''---\<newline>'' @ fm @ ''\<newline>---\<newline>'' @ rest"
    and "\<not> sublist ''\<newline>---\<newline>'' (fm @ ''\<newline>---'')"
  shows "parseFrontmatter content =
           \<lparr>frontmatter = foldl frontmatter_line Map.empty (split_on CHR ''\<newline>'' fm),
            body = rest\<rparr>"
proof -
  have "split_at_first ''\<newline>---\<newline>'' (fm @ ''\<newline>---\<newline>'' @ rest) = Some (fm, rest)"
    using assms(2) by (intro split_at_first_first) simp_all
  then show ?thesis
    by (simp add: parseFrontmatter_def assms(1) startsWith_def)
qed

section \<open>Properties of the template substitution\<close>

text \<open>
  A replacement text without a dollar sign is inserted as it is. One global replacement
  of the placeholder of a key, on the string of a well-formed template, replaces the
  placeholders of that key and nothing else, and leaves a well-formed template when the
  value has no opening brace.
\<close>

lemma getSubstitution_plain:
  "CHR ''$'' \<notin> set v \<Longrightarrow> getSubstitution m b a v = v"
  by (induction m b a v rule: getSubstitution.induct) auto

lemma replace_from_Nil: "replace_from pat v prior [] = []"
  by (simp add: replace_from.simps)

lemma replace_from_Cons:
  "replace_from pat v prior (c # cs) =
     (if pat \<noteq> [] \<and> prefix pat (c # cs) then
        getSubstitution pat prior (drop (length pat) (c # cs)) v
          @ replace_from pat v (prior @ pat) (drop (length pat) (c # cs))
      else c # replace_from pat v (prior @ [c]) cs)"
  by (subst replace_from.simps) (simp add: startsWith_prefix)

lemma replace_from_match:
  "pat \<noteq> [] \<Longrightarrow> replace_from pat v prior (pat @ r)
     = getSubstitution pat prior r v @ replace_from pat v (prior @ pat) r"
  by (subst replace_from.simps) (simp add: startsWith_def)

lemma replace_from_skip_other:
  "k' \<noteq> k \<Longrightarrow> replace_from (placeholder k) v prior (placeholder k' @ r)
     = placeholder k' @ replace_from (placeholder k) v (prior @ placeholder k') r"
  by (cases k; cases k') (simp_all add: placeholder_def replace_from_Cons)

lemma well_formed_Text:
  "c \<noteq> CHR ''{'' \<Longrightarrow> well_formed (Text c # xs) = well_formed xs"
  by (cases xs) simp_all

lemma well_formed_map_Text:
  "CHR ''{'' \<notin> set v \<Longrightarrow> well_formed (map Text v @ xs) = well_formed xs"
  by (induction v) (simp_all add: well_formed_Text [OF not_sym])

lemma well_formed_subst_slot:
  "well_formed segs \<Longrightarrow> CHR ''{'' \<notin> set v \<Longrightarrow> well_formed (subst_slot k v segs)"
proof (induction segs rule: well_formed.induct)
  case (3 c s rest)
  show ?case
  proof (cases "c = CHR ''{''")
    case True
    with "3.prems" obtain d where "s = Text d" "d \<noteq> CHR ''{''"
      by (auto split: segment.splits)
    with "3" True show ?thesis by simp
  next
    case False
    with "3" show ?thesis by (simp add: well_formed_Text)
  qed
next
  case (4 k' rest)
  then show ?case by (simp add: well_formed_map_Text)
qed simp_all

lemma not_prefix_placeholder_Text:
  "well_formed (Text c # rest) \<Longrightarrow> \<not> prefix (placeholder k) (c # render rest)"
proof (cases rest)
  case Nil
  then show ?thesis by (simp add: placeholder_def)
next
  case (Cons s rest')
  assume "well_formed (Text c # rest)"
  with Cons show ?thesis
    by (cases s) (auto simp: placeholder_def)
qed

lemma well_formed_tail: "well_formed (s # rest) \<Longrightarrow> well_formed rest"
  by (cases s; cases rest) simp_all

lemma render_map_Text: "render (map Text v @ xs) = v @ render xs"
  by (induction v) simp_all

lemma replace_from_render:
  "well_formed segs \<Longrightarrow> CHR ''$'' \<notin> set v \<Longrightarrow>
     replace_from (placeholder k) v prior (render segs) = render (subst_slot k v segs)"
proof (induction segs arbitrary: prior)
  case Nil
  then show ?case by (simp add: replace_from_Nil)
next
  case (Cons s rest)
  from Cons.prems(1) have wr: "well_formed rest" by (rule well_formed_tail)
  show ?case
  proof (cases s)
    case (Text c)
    with Cons.prems(1) have "\<not> prefix (placeholder k) (c # render rest)"
      by (simp add: not_prefix_placeholder_Text)
    then have "replace_from (placeholder k) v prior (c # render rest)
                 = c # replace_from (placeholder k) v (prior @ [c]) (render rest)"
      by (simp add: replace_from_Cons)
    with Text Cons.IH [OF wr Cons.prems(2)] show ?thesis by simp
  next
    case (Slot k')
    show ?thesis
    proof (cases "k' = k")
      case True
      have "placeholder k \<noteq> []" by (simp add: placeholder_def)
      then have "replace_from (placeholder k) v prior (placeholder k @ render rest)
           = getSubstitution (placeholder k) prior (render rest) v
               @ replace_from (placeholder k) v (prior @ placeholder k) (render rest)"
        by (rule replace_from_match)
      with True Slot Cons.IH [OF wr Cons.prems(2)] Cons.prems(2) show ?thesis
        by (simp add: getSubstitution_plain render_map_Text)
    next
      case False
      with Slot Cons.IH [OF wr Cons.prems(2)] show ?thesis
        by (simp add: replace_from_skip_other)
    qed
  qed
qed

lemma subst_slot_map_Text: "subst_slot k v (map Text w @ xs) = map Text w @ subst_slot k v xs"
  by (induction w) simp_all

lemma subst_all_fill:
  "render (subst_slot SchemaType (slot_value vs SchemaType)
            (subst_slot Path (slot_value vs Path)
              (subst_slot Content (slot_value vs Content)
                (subst_slot Description (slot_value vs Description)
                  (subst_slot Title (slot_value vs Title) segs)))))
     = fill vs segs"
proof (induction segs)
  case Nil
  then show ?case by simp
next
  case (Cons s rest)
  show ?case
  proof (cases s)
    case (Text c)
    with Cons show ?thesis by simp
  next
    case (Slot k)
    with Cons show ?thesis
      by (cases k) (simp_all add: subst_slot_map_Text render_map_Text)
  qed
qed

section \<open>Properties of the build steps\<close>

text \<open>
  A step that ends without an exception in flight started without one, and has added its
  operations to those performed before.
\<close>

lemma perform_ok:
  "\<not> thrown (perform env act r) \<Longrightarrow>
     \<not> thrown r \<and> performed (perform env act r) = performed r @ [act]"
  by (auto simp: perform_def throw_def split: if_splits)

lemma endsWith_md_basename:
  "endsWith f ''.md'' \<Longrightarrow> basename f ''.md'' = take (length f - 3) f"
  by (auto simp: basename_def endsWith_def eval_nat_numeral)

lemma buildPage_ok:
  assumes "\<not> thrown (buildPage env f r)" "endsWith f ''.md''"
  shows "\<not> thrown r \<and> performed (buildPage env f r) = performed r @ page_ops env f
         \<and> readFile env (path_join (path_join (contentDir env) ''pages'') f) \<noteq> None
         \<and> readFile env (path_join (templatesDir env) ''layout.html'') \<noteq> None"
proof -
  from assms(1) have nr: "\<not> thrown r"
    by (auto simp: buildPage_def split: if_splits)
  with assms(1) obtain content where
    c: "readFile env (path_join (path_join (contentDir env) ''pages'') f) = Some content"
    by (cases "readFile env (path_join (path_join (contentDir env) ''pages'') f)")
       (auto simp: buildPage_def throw_def)
  with assms(1) nr obtain template where
    t: "readFile env (path_join (templatesDir env) ''layout.html'') = Some template"
    by (cases "readFile env (path_join (templatesDir env) ''layout.html'')")
       (auto simp: buildPage_def throw_def)
  show ?thesis
  proof (cases "f = ''index.md''")
    case True
    with assms(1) nr c t
    have "\<not> thrown (perform env (WriteFile (path_join (publicDir env) ''index.html'')
                 (Html (page_html env content template))) r)"
      by (simp add: buildPage_def)
    from perform_ok [OF this] True nr c t show ?thesis
      by (simp add: buildPage_def page_ops_def)
  next
    case False
    let ?d = "path_join (publicDir env) (basename f ''.md'')"
    let ?w = "WriteFile (path_join ?d ''index.html'') (Html (page_html env content template))"
    from assms(1) nr c t False
    have n2: "\<not> thrown (perform env ?w (perform env (EnsureDir ?d) r))"
      by (simp add: buildPage_def Let_def)
    from perform_ok [OF n2] have n1: "\<not> thrown (perform env (EnsureDir ?d) r)"
      and p2: "performed (perform env ?w (perform env (EnsureDir ?d) r))
                 = performed (perform env (EnsureDir ?d) r) @ [?w]"
      by simp_all
    from perform_ok [OF n1] have p1: "performed (perform env (EnsureDir ?d) r)
                 = performed r @ [EnsureDir ?d]"
      by simp
    from p1 p2 False nr c t endsWith_md_basename [OF assms(2)] show ?thesis
      by (simp add: buildPage_def page_ops_def Let_def)
  qed
qed

lemma foldl_buildPage_ok:
  "\<not> thrown (foldl (\<lambda>r' f. if endsWith f ''.md'' then buildPage env f r' else r') r pages) \<Longrightarrow>
     \<not> thrown r
     \<and> performed (foldl (\<lambda>r' f. if endsWith f ''.md'' then buildPage env f r' else r') r pages)
         = performed r @ concat (map (page_ops env) (filter (\<lambda>f. endsWith f ''.md'') pages))
     \<and> (\<forall>f \<in> set pages. endsWith f ''.md'' \<longrightarrow>
           readFile env (path_join (path_join (contentDir env) ''pages'') f) \<noteq> None
           \<and> readFile env (path_join (templatesDir env) ''layout.html'') \<noteq> None)"
proof (induction pages arbitrary: r)
  case Nil
  then show ?case by simp
next
  case (Cons f pages)
  show ?case
  proof (cases "endsWith f ''.md''")
    case True
    with Cons.prems
    have "\<not> thrown (foldl (\<lambda>r' f. if endsWith f ''.md'' then buildPage env f r' else r')
              (buildPage env f r) pages)"
      by simp
    from Cons.IH [OF this] buildPage_ok [of env f r] True show ?thesis
      by simp
  next
    case False
    with Cons.prems
    have "\<not> thrown (foldl (\<lambda>r' f. if endsWith f ''.md'' then buildPage env f r' else r') r pages)"
      by simp
    from Cons.IH [OF this] False show ?thesis by simp
  qed
qed

lemma buildPages_ok:
  assumes "\<not> thrown (buildPages env r)"
  shows "\<not> thrown r
     \<and> (\<exists>pages. readdir env (path_join (contentDir env) ''pages'') = Some pages
          \<and> performed (buildPages env r)
              = performed r @ concat (map (page_ops env) (filter (\<lambda>f. endsWith f ''.md'') pages))
          \<and> (\<forall>f \<in> set pages. endsWith f ''.md'' \<longrightarrow>
                readFile env (path_join (path_join (contentDir env) ''pages'') f) \<noteq> None
                \<and> readFile env (path_join (templatesDir env) ''layout.html'') \<noteq> None))"
proof -
  from assms have nr: "\<not> thrown r"
    by (auto simp: buildPages_def split: if_splits)
  with assms obtain pages where
    p: "readdir env (path_join (contentDir env) ''pages'') = Some pages"
    by (cases "readdir env (path_join (contentDir env) ''pages'')")
       (auto simp: buildPages_def throw_def)
  with assms nr
  have "\<not> thrown (foldl (\<lambda>r' f. if endsWith f ''.md'' then buildPage env f r' else r') r pages)"
    by (simp add: buildPages_def)
  from foldl_buildPage_ok [OF this] p nr show ?thesis
    by (simp add: buildPages_def)
qed


lemma prefix_path_join:
  "seg \<noteq> ''..'' \<Longrightarrow> prefix p q \<Longrightarrow> prefix p (path_join q seg)"
  by (auto simp: path_join_def)

lemma page_ops_inside:
  assumes "endsWith f ''.md''" "f \<noteq> ''...md''" "act \<in> set (page_ops env f)"
  shows "prefix (publicDir env) (target act)"
proof -
  have "take (length f - 3) f \<noteq> ''..''"
  proof
    assume t: "take (length f - 3) f = ''..''"
    from assms(1) have "drop (length f - 3) f = ''.md''"
      by (simp add: endsWith_def eval_nat_numeral)
    with t have "f = ''..'' @ ''.md''"
      by (metis append_take_drop_id)
    with assms(2) show False by simp
  qed
  then have "prefix (publicDir env) (path_join (publicDir env) (take (length f - 3) f))"
    by (simp add: prefix_path_join)
  moreover from this
  have "prefix (publicDir env)
          (path_join (path_join (publicDir env) (take (length f - 3) f)) ''index.html'')"
    by (simp add: prefix_path_join)
  moreover have "prefix (publicDir env) (path_join (publicDir env) ''index.html'')"
    by (simp add: prefix_path_join)
  ultimately show ?thesis
    using assms(3)
    by (auto simp: page_ops_def Let_def split: option.splits if_splits)
qed

section \<open>Properties of the knowledge scan\<close>

text \<open>
  The \<open>forEach\<close> of \<open>performReasoning\<close>, started from any results and any number of
  earlier \<open>Math.random()\<close> calls, appends one result per matching node, in the order of
  the stored list.
\<close>

lemma foldl_reasoning_visit:
  "foldl (reasoning_visit random q) (acc, c) ks = (rs, c') \<Longrightarrow>
     \<exists>new. rs = acc @ new \<and> c' = c + length new
       \<and> map (\<lambda>r. (node r, result_attributes r)) new
           = map (\<lambda>n. (atom_name n, atom_attributes n)) (filter (node_matches q) ks)"
proof (induction ks arbitrary: acc c)
  case Nil
  then show ?case by simp
next
  case (Cons k ks)
  show ?case
  proof (cases "node_matches q k")
    case True
    let ?r = "\<lparr>node = atom_name k, relevance = random c * (8 / 10) + 2 / 10,
               result_attributes = atom_attributes k\<rparr>"
    have "reasoning_visit random q (acc, c) k = (acc @ [?r], c + 1)"
      using True by (simp add: reasoning_visit_def)
    with Cons.prems
    have "foldl (reasoning_visit random q) (acc @ [?r], c + 1) ks = (rs, c')"
      by simp
    from Cons.IH [OF this] obtain new where
      n: "rs = (acc @ [?r]) @ new" "c' = (c + 1) + length new"
         "map (\<lambda>r. (node r, result_attributes r)) new
           = map (\<lambda>n. (atom_name n, atom_attributes n)) (filter (node_matches q) ks)"
      by blast
    show ?thesis
      by (rule exI [of _ "?r # new"]) (use n True in simp)
  next
    case False
    have "reasoning_visit random q (acc, c) k = (acc, c)"
      using False by (simp add: reasoning_visit_def)
    with Cons.prems
    have "foldl (reasoning_visit random q) (acc, c) ks = (rs, c')"
      by simp
    from Cons.IH [OF this] False show ?thesis by simp
  qed
qed

lemma reasoning_scan_filter:
  "map (\<lambda>r. (node r, result_attributes r)) (reasoning_scan random q ks)
     = map (\<lambda>n. (atom_name n, atom_attributes n)) (filter (node_matches q) ks)"
proof -
  obtain rs c' where f: "foldl (reasoning_visit random q) ([], 0) ks = (rs, c')"
    by (cases "foldl (reasoning_visit random q) ([], 0) ks")
  from foldl_reasoning_visit [OF f] f show ?thesis
    by (auto simp: reasoning_scan_def)
qed

lemma node_matches_iff:
  "node_matches q n \<longleftrightarrow>
     (\<exists>k \<in> set (attr_keywords (atom_attributes n)). sublist (toLowerCase k) (toLowerCase q))"
  by (simp add: node_matches_def list_ex_iff includes_sublist)

section \<open>Claims about the gateway\<close>

text \<open>
  C1, as stated: the key is accepted if and only if it begins with \<open>regima_\<close>. The key
  \<open>regima_short\<close> begins with the prefix and is rejected, because the check also asks
  for more than 20 code units.
\<close>

theorem validateApiKey_prefix_alone_counterexample:
  "startsWith ''regima_short'' ''regima_'' \<and> \<not> validateApiKey ''regima_short''"
  by (simp add: validateApiKey_def startsWith_def)

text \<open>
  C1, amended: a key is accepted if and only if it is \<open>regima_\<close> followed by at least
  14 more code units, that is, it begins with \<open>regima_\<close> and is longer than 20.
\<close>

theorem validateApiKey_iff:
  "validateApiKey apiKey \<longleftrightarrow>
     (\<exists>rest. apiKey = ''regima_'' @ rest \<and> length rest \<ge> 14)"
proof
  assume "validateApiKey apiKey"
  then have p: "prefix ''regima_'' apiKey" and l: "length apiKey > 20"
    by (simp_all add: validateApiKey_def startsWith_prefix)
  from p obtain rest where r: "apiKey = ''regima_'' @ rest"
    by (auto simp: prefix_def)
  with l have "length rest \<ge> 14" by simp
  with r show "\<exists>rest. apiKey = ''regima_'' @ rest \<and> length rest \<ge> 14" by blast
next
  assume "\<exists>rest. apiKey = ''regima_'' @ rest \<and> length rest \<ge> 14"
  then obtain rest where r: "apiKey = ''regima_'' @ rest" and l: "length rest \<ge> 14"
    by blast
  then show "validateApiKey apiKey"
    by (simp add: validateApiKey_def startsWith_def)
qed

text \<open>
  C4, as stated: for every service name and every state the counter goes up by exactly
  one. From the initial state, \<open>updateServiceStats('constructor')\<close> reads the inherited
  function, which is not falsy, and stores \<open>NaN\<close>; \<open>updateServiceStats('__proto__')\<close>
  creates no counter at all; and a counter that stands at \<open>2^53\<close> stays there, because
  \<open>2^53 + 1\<close> is not a double.
\<close>

theorem updateServiceStats_counterexample:
  "byService (updateServiceStats ''constructor'' initial_stats) ''constructor''
     = Some NotANumber
   \<and> byService (updateServiceStats ''__proto__'' initial_stats) ''__proto__'' = None
   \<and> byService (updateServiceStats ''openai''
         \<lparr>total = 0, byService = [''openai'' \<mapsto> Count 9007199254740992], errors = 0\<rparr>)
       ''openai'' = Some (Count 9007199254740992)"
proof (intro conjI)
  show "byService (updateServiceStats ''constructor'' initial_stats) ''constructor''
     = Some NotANumber"
    by (simp add: updateServiceStats_def initial_stats_def get_property_def assign_property_def
        object_prototype_names_def)
  show "byService (updateServiceStats ''__proto__'' initial_stats) ''__proto__'' = None"
    by (simp add: updateServiceStats_def initial_stats_def get_property_def assign_property_def
        object_prototype_names_def)
  have "double_succ 9007199254740992 = 9007199254740992"
    by (simp add: double_succ_def)
  then show "byService (updateServiceStats ''openai''
         \<lparr>total = 0, byService = [''openai'' \<mapsto> Count 9007199254740992], errors = 0\<rparr>)
       ''openai'' = Some (Count 9007199254740992)"
    by (simp add: updateServiceStats_def get_property_def assign_property_def)
qed

text \<open>
  C4, amended: for every service name \<open>s\<close> that is not the name of a property of
  \<open>Object.prototype\<close>, or that has a counter already, and every state in which the
  counter of \<open>s\<close> is missing or is an integer below \<open>2^53\<close>, one call of
  \<open>updateServiceStats(s)\<close> raises the counter of \<open>s\<close> by exactly one, counting a
  missing counter as zero. For every name and every state it changes nothing else: not
  the counter of any other service, not the total, not the error count.
\<close>

theorem updateServiceStats_frame:
  "(byService st s = None \<and> s \<notin> set object_prototype_names
      \<longrightarrow> byService (updateServiceStats s st) s = Some (Count 1))
   \<and> (\<forall>n. byService st s = Some (Count n) \<and> n < 9007199254740992
      \<longrightarrow> byService (updateServiceStats s st) s = Some (Count (n + 1)))
   \<and> (\<forall>t. t \<noteq> s \<longrightarrow> byService (updateServiceStats s st) t = byService st t)
   \<and> total (updateServiceStats s st) = total st
   \<and> errors (updateServiceStats s st) = errors st"
proof (intro conjI impI allI)
  assume a: "byService st s = None \<and> s \<notin> set object_prototype_names"
  then have "s \<noteq> ''__proto__''" by (auto simp: object_prototype_names_def)
  with a show "byService (updateServiceStats s st) s = Some (Count 1)"
    by (simp add: updateServiceStats_def get_property_def assign_property_def double_succ_def)
next
  fix n
  assume "byService st s = Some (Count n) \<and> n < 9007199254740992"
  then show "byService (updateServiceStats s st) s = Some (Count (n + 1))"
    by (cases "n = 0")
       (simp_all add: updateServiceStats_def get_property_def assign_property_def double_succ_def)
next
  fix t assume "t \<noteq> s"
  then show "byService (updateServiceStats s st) t = byService st t"
    by (simp add: updateServiceStats_def assign_property_other Let_def)
next
  show "total (updateServiceStats s st) = total st"
    by (simp add: updateServiceStats_def Let_def)
  show "errors (updateServiceStats s st) = errors st"
    by (simp add: updateServiceStats_def Let_def)
qed

theorem updateServiceStats_frame_witness:
  "byService (updateServiceStats ''openai'' initial_stats) ''openai'' = Some (Count 1)
   \<and> byService (updateServiceStats ''openai''
       \<lparr>total = 7, byService = [''openai'' \<mapsto> Count 3, ''image-analysis'' \<mapsto> Count 2],
        errors = 1\<rparr>) ''openai''
     = Some (Count 4)
   \<and> byService (updateServiceStats ''openai''
       \<lparr>total = 7, byService = [''openai'' \<mapsto> Count 3, ''image-analysis'' \<mapsto> Count 2],
        errors = 1\<rparr>) ''image-analysis''
     = Some (Count 2)
   \<and> total (updateServiceStats ''openai''
       \<lparr>total = 7, byService = [''openai'' \<mapsto> Count 3, ''image-analysis'' \<mapsto> Count 2],
        errors = 1\<rparr>) = 7
   \<and> errors (updateServiceStats ''openai''
       \<lparr>total = 7, byService = [''openai'' \<mapsto> Count 3, ''image-analysis'' \<mapsto> Count 2],
        errors = 1\<rparr>) = 1"
proof -
  let ?st = "\<lparr>total = 7, byService = [''openai'' \<mapsto> Count 3, ''image-analysis'' \<mapsto> Count 2],
              errors = 1\<rparr>"
  have a: "byService initial_stats ''openai'' = None \<and> ''openai'' \<notin> set object_prototype_names"
    by (simp add: initial_stats_def object_prototype_names_def)
  have b: "byService ?st ''openai'' = Some (Count 3) \<and> (3::nat) < 9007199254740992"
    by simp
  have c: "''image-analysis'' \<noteq> ''openai''" by simp
  note i = updateServiceStats_frame [of initial_stats "''openai''"]
  note t = updateServiceStats_frame [of ?st "''openai''"]
  have 1: "byService (updateServiceStats ''openai'' initial_stats) ''openai'' = Some (Count 1)"
    by (rule i [THEN conjunct1, rule_format, OF a])
  have 2: "byService (updateServiceStats ''openai'' ?st) ''openai'' = Some (Count (3 + 1))"
    by (rule t [THEN conjunct2, THEN conjunct1, rule_format, OF b])
  have 3: "byService (updateServiceStats ''openai'' ?st) ''image-analysis''
                      = byService ?st ''image-analysis''"
    by (rule t [THEN conjunct2, THEN conjunct2, THEN conjunct1, rule_format, OF c])
  have 4: "total (updateServiceStats ''openai'' ?st) = total ?st"
    by (rule t [THEN conjunct2, THEN conjunct2, THEN conjunct2, THEN conjunct1])
  have 5: "errors (updateServiceStats ''openai'' ?st) = errors ?st"
    by (rule t [THEN conjunct2, THEN conjunct2, THEN conjunct2, THEN conjunct2])
  have 6: "byService ?st ''image-analysis'' = Some (Count 2)" "total ?st = 7" "errors ?st = 1"
    by simp_all
  show ?thesis
    unfolding 1 2 3 4 5 6 by simp
qed

text \<open>
  C10: \<open>getServiceMetrics\<close> divides errors by total only under the guard
  \<open>total > 0\<close>; with a total of zero the error rate is the number 0, not the \<open>NaN\<close>
  or \<open>Infinity\<close> that JavaScript's division by zero would give, and it is finite in
  every state.
\<close>

theorem getServiceMetrics_errorRate:
  "errorRate (getServiceMetrics st)
     = (if total st > 0 then Finite (of_nat (errors st) / of_nat (total st)) else Finite 0)
   \<and> errorRate (getServiceMetrics st) \<noteq> js_divide (errors st) 0"
  by (simp add: getServiceMetrics_def js_divide_def)

text \<open>
  C2: each of the ten placeholder handlers answers any two requests alike: the response
  it leaves is the same whatever the body, headers and query of the request, and it is
  the one-field object whose message ends in \<open>implementation pending\<close>.
\<close>

theorem placeholder_handler_constant:
  "placeholder_handler h req1 res = placeholder_handler h req2 res
   \<and> (\<exists>m. message_of (placeholder_handler h req1 res) = Some m
          \<and> endsWith m ''implementation pending'')"
  by (cases h)
     (simp_all add: handleAzureOpenAIChat_def handleCognitiveAnalysis_def
        handleDermatologyAssistant_def handleProductAdvisor_def handleVectorSearch_def
        handleKnowledgeQuery_def handleRoutineGenerator_def handleAtomSpaceQuery_def
        handlePLNReasoning_def handlePatternMining_def res_json_def endsWith_def)

text \<open>
  C8, as stated: every request under the four prefixes without a key is answered with
  401, and with a key that fails validation with 403. The middleware registered ahead of
  the authentication answers some requests first: \<open>cors\<close> answers a key-less \<open>OPTIONS\<close>
  request with 204, and a body that the body parsers reject is answered with the status
  of their error, 400 for a malformed body. And a repeated \<open>apiKey\<close> parameter reaches
  \<open>validateApiKey\<close> as an array, which throws: the answer is 500, not 403.
\<close>

theorem dispatch_counterexample:
  "protected ''/v1/services''
   \<and> protected ''/v1/cognitive/analyze''
   \<and> dispatch \<lparr>req_method = ''OPTIONS'', req_path = ''/v1/services'',
                 req_headers = Map.empty, req_query = Map.empty,
                 req_body = Parsed JNull, req_user = None\<rparr>
       = Responded \<lparr>statusCode = 204, sent = None\<rparr>
   \<and> dispatch \<lparr>req_method = ''POST'', req_path = ''/v1/cognitive/analyze'',
                 req_headers = Map.empty, req_query = Map.empty,
                 req_body = Rejected 400, req_user = None\<rparr>
       = Responded \<lparr>statusCode = 400, sent = None\<rparr>
   \<and> dispatch \<lparr>req_method = ''GET'', req_path = ''/v1/services'',
                 req_headers = Map.empty, req_query = [''apiKey'' \<mapsto> QOther],
                 req_body = Parsed JNull, req_user = None\<rparr>
       = Responded \<lparr>statusCode = 500, sent = None\<rparr>"
proof -
  have p: "protected ''/v1/services''" "protected ''/v1/cognitive/analyze''"
    by code_simp+
  have m: "toLowerCase ''OPTIONS'' = ''options''" "toLowerCase ''POST'' = ''post''"
          "toLowerCase ''GET'' = ''get''"
    by code_simp+
  show ?thesis
    by (simp add: dispatch_def p m authenticateRequest_def api_key_of_def)
qed

text \<open>
  C8, amended: for every request on a path under \<open>/v1/\<close>, \<open>/agents/\<close>, \<open>/data/\<close> or
  \<open>/tools/\<close> that is not an \<open>OPTIONS\<close> request and whose body the body parsers
  accept: with no API key (the header and the query parameter missing or empty) the
  gateway answers with status 401, and with a key that is a string (the header, or else
  the query parameter) and fails \<open>validateApiKey\<close> it answers with status 403. And for
  every request on such a path, whatever its method and body: unless its key is a string
  that passes \<open>validateApiKey\<close>, no route handler is invoked.
\<close>

theorem protected_route_rejects:
  "(protected (req_path req) \<and> toLowerCase (req_method req) \<noteq> ''options''
      \<and> (\<exists>b. req_body req = Parsed b)
      \<and> req_headers req ''x-api-key'' \<in> {None, Some []}
      \<and> req_query req ''apiKey'' \<in> {None, Some (QString [])}
    \<longrightarrow> (\<exists>res. dispatch req = Responded res \<and> statusCode res = 401))
   \<and> (\<forall>k. protected (req_path req) \<and> toLowerCase (req_method req) \<noteq> ''options''
      \<and> (\<exists>b. req_body req = Parsed b)
      \<and> api_key_of req = Some (QString k) \<and> k \<noteq> [] \<and> \<not> validateApiKey k
    \<longrightarrow> (\<exists>res. dispatch req = Responded res \<and> statusCode res = 403))
   \<and> (protected (req_path req)
      \<and> (\<forall>k. api_key_of req = Some (QString k) \<longrightarrow> \<not> validateApiKey k)
    \<longrightarrow> (\<forall>h r. dispatch req \<noteq> Invoked h r))"
proof (intro conjI impI allI)
  assume "protected (req_path req) \<and> toLowerCase (req_method req) \<noteq> ''options''
      \<and> (\<exists>b. req_body req = Parsed b)
      \<and> req_headers req ''x-api-key'' \<in> {None, Some []}
      \<and> req_query req ''apiKey'' \<in> {None, Some (QString [])}"
  then show "\<exists>res. dispatch req = Responded res \<and> statusCode res = 401"
    by (auto simp: dispatch_def authenticateRequest_def api_key_of_def res_json_def
          res_status_def)
next
  fix k
  assume "protected (req_path req) \<and> toLowerCase (req_method req) \<noteq> ''options''
      \<and> (\<exists>b. req_body req = Parsed b)
      \<and> api_key_of req = Some (QString k) \<and> k \<noteq> [] \<and> \<not> validateApiKey k"
  then show "\<exists>res. dispatch req = Responded res \<and> statusCode res = 403"
    by (auto simp: dispatch_def authenticateRequest_def res_json_def res_status_def)
next
  fix h r
  assume a: "protected (req_path req)
      \<and> (\<forall>k. api_key_of req = Some (QString k) \<longrightarrow> \<not> validateApiKey k)"
  show "dispatch req \<noteq> Invoked h r"
  proof
    assume d: "dispatch req = Invoked h r"
    with a have "authenticateRequest req new_response \<noteq> Thrown
                 \<and> (\<forall>res. authenticateRequest req new_response \<noteq> Answered res)"
      by (auto simp: dispatch_def split: if_splits parsed_body.splits auth_result.splits)
    then obtain req' where "authenticateRequest req new_response = Next req'"
      by (cases "authenticateRequest req new_response") auto
    then obtain k where "api_key_of req = Some (QString k)" "validateApiKey k"
      by (auto simp: authenticateRequest_def split: option.splits query_value.splits if_splits)
    with a show False by blast
  qed
qed

theorem protected_route_rejects_witness:
  "(\<exists>res. dispatch \<lparr>req_method = ''GET'', req_path = ''/V1/Services'',
                     req_headers = Map.empty, req_query = Map.empty,
                     req_body = Parsed JNull, req_user = None\<rparr> = Responded res
          \<and> statusCode res = 401)
   \<and> (\<exists>res. dispatch \<lparr>req_method = ''POST'', req_path = ''/tools/image-analysis'',
                     req_headers = [''x-api-key'' \<mapsto> ''regima_tooshort''],
                     req_query = Map.empty,
                     req_body = Parsed JNull, req_user = None\<rparr> = Responded res
          \<and> statusCode res = 403)
   \<and> (\<forall>h r. dispatch \<lparr>req_method = ''POST'', req_path = ''/tools/image-analysis'',
                     req_headers = [''x-api-key'' \<mapsto> ''regima_tooshort''],
                     req_query = Map.empty,
                     req_body = Parsed JNull, req_user = None\<rparr> \<noteq> Invoked h r)"
proof -
  let ?a = "\<lparr>req_method = ''GET'', req_path = ''/V1/Services'',
             req_headers = Map.empty, req_query = Map.empty,
             req_body = Parsed JNull, req_user = None\<rparr>"
  let ?b = "\<lparr>req_method = ''POST'', req_path = ''/tools/image-analysis'',
             req_headers = [''x-api-key'' \<mapsto> ''regima_tooshort''],
             req_query = Map.empty,
             req_body = Parsed JNull, req_user = None\<rparr>"
  have p: "protected ''/V1/Services''" "protected ''/tools/image-analysis''"
    by code_simp+
  have m: "toLowerCase ''GET'' \<noteq> ''options''" "toLowerCase ''POST'' \<noteq> ''options''"
    by code_simp+
  have v: "\<not> validateApiKey ''regima_tooshort''"
    by (simp add: validateApiKey_def)
  have ha: "protected (req_path ?a) \<and> toLowerCase (req_method ?a) \<noteq> ''options''
      \<and> (\<exists>b. req_body ?a = Parsed b)
      \<and> req_headers ?a ''x-api-key'' \<in> {None, Some []}
      \<and> req_query ?a ''apiKey'' \<in> {None, Some (QString [])}"
    by (simp add: p m)
  have hb: "protected (req_path ?b) \<and> toLowerCase (req_method ?b) \<noteq> ''options''
      \<and> (\<exists>b. req_body ?b = Parsed b)
      \<and> api_key_of ?b = Some (QString ''regima_tooshort'') \<and> ''regima_tooshort'' \<noteq> []
      \<and> \<not> validateApiKey ''regima_tooshort''"
    by (simp add: p m v api_key_of_def)
  have hc: "protected (req_path ?b)
      \<and> (\<forall>k. api_key_of ?b = Some (QString k) \<longrightarrow> \<not> validateApiKey k)"
    by (simp add: p v api_key_of_def)
  note ta = protected_route_rejects [of ?a]
  note tb = protected_route_rejects [of ?b]
  have 1: "\<exists>res. dispatch ?a = Responded res \<and> statusCode res = 401"
    by (rule ta [THEN conjunct1, THEN mp, OF ha])
  have 2: "\<exists>res. dispatch ?b = Responded res \<and> statusCode res = 403"
    by (rule tb [THEN conjunct2, THEN conjunct1, rule_format, OF hb])
  have 3: "\<forall>h r. dispatch ?b \<noteq> Invoked h r"
    by (rule tb [THEN conjunct2, THEN conjunct2, THEN mp, OF hc])
  from 1 2 3 show ?thesis by (intro conjI)
qed

section \<open>Claims about the cognitive layer\<close>

text \<open>
  C3: \<open>performReasoning\<close> visits the stored list once, in order, and keeps exactly the
  nodes with at least one keyword whose lower-cased form is a substring of the
  lower-cased query; what it returns is a rearrangement of those results, sorted by
  non-increasing relevance.
\<close>

theorem performReasoning_matches_sorted:
  "map (\<lambda>r. (node r, result_attributes r))
       (reasoning_scan random q (stored_list (skintwin_knowledge st)))
     = map (\<lambda>n. (atom_name n, atom_attributes n))
         (filter (\<lambda>n. \<exists>k \<in> set (attr_keywords (atom_attributes n)).
                    sublist (toLowerCase k) (toLowerCase q))
            (stored_list (skintwin_knowledge st)))
   \<and> mset (performReasoning random st q)
       = mset (reasoning_scan random q (stored_list (skintwin_knowledge st)))
   \<and> sorted_wrt (\<lambda>a b. relevance a \<ge> relevance b) (performReasoning random st q)"
proof -
  have s: "sorted (map (\<lambda>r. - relevance r) (performReasoning random st q))"
    by (simp add: performReasoning_def Let_def)
  have "sorted_wrt (\<lambda>a b. relevance a \<ge> relevance b) (performReasoning random st q)"
    using s by (simp add: sorted_wrt_map)
  moreover have "mset (performReasoning random st q)
       = mset (reasoning_scan random q (stored_list (skintwin_knowledge st)))"
    by (simp add: performReasoning_def Let_def)
  moreover have "(\<lambda>n. \<exists>k \<in> set (attr_keywords (atom_attributes n)).
                    sublist (toLowerCase k) (toLowerCase q)) = node_matches q"
    by (auto simp: node_matches_iff fun_eq_iff)
  ultimately show ?thesis
    by (simp add: reasoning_scan_filter)
qed

theorem performReasoning_matches_sorted_witness:
  "map node (reasoning_scan example_random ''Best RETINOL Serum''
               (stored_list (skintwin_knowledge example_storage)))
     = [''Page_a'', ''Page_c'']
   \<and> map node (performReasoning example_random example_storage ''Best RETINOL Serum'')
       = [''Page_c'', ''Page_a'']
   \<and> map relevance (performReasoning example_random example_storage ''Best RETINOL Serum'')
       = [4 / 5, 2 / 5]
   \<and> mset (performReasoning example_random example_storage ''Best RETINOL Serum'')
       = mset (reasoning_scan example_random ''Best RETINOL Serum''
                 (stored_list (skintwin_knowledge example_storage)))
   \<and> sorted_wrt (\<lambda>a b. relevance a \<ge> relevance b)
         (performReasoning example_random example_storage ''Best RETINOL Serum'')"
proof -
  have 1: "map node (reasoning_scan example_random ''Best RETINOL Serum''
               (stored_list (skintwin_knowledge example_storage)))
     = [''Page_a'', ''Page_c'']"
    by code_simp
  have 2: "map node (performReasoning example_random example_storage ''Best RETINOL Serum'')
       = [''Page_c'', ''Page_a'']"
    by code_simp
  have 3: "map relevance (performReasoning example_random example_storage ''Best RETINOL Serum'')
       = [4 / 5, 2 / 5]"
    by code_simp
  from performReasoning_matches_sorted [of example_random "''Best RETINOL Serum''" example_storage]
  have 4: "mset (performReasoning example_random example_storage ''Best RETINOL Serum'')
       = mset (reasoning_scan example_random ''Best RETINOL Serum''
                 (stored_list (skintwin_knowledge example_storage)))"
    and 5: "sorted_wrt (\<lambda>a b. relevance a \<ge> relevance b)
         (performReasoning example_random example_storage ''Best RETINOL Serum'')"
    by blast+
  from 1 2 3 4 5 show ?thesis by blast
qed

text \<open>
  C9: after a call of \<open>predictUserJourney\<close>, from any stored state, the history stored
  under \<open>skintwin_navigation\<close> has at most 50 entries, and they are the last ones of the
  earlier history followed by the new entry: the 50 most recent, or all of them when
  there are fewer. The other storage key is untouched.
\<close>

theorem predictUserJourney_keeps_last_50:
  "skintwin_navigation (fst (predictUserJourney storage p now))
     = Some (snd (predictUserJourney storage p now))
   \<and> length (snd (predictUserJourney storage p now))
       = min 50 (length (stored_list (skintwin_navigation storage)) + 1)
   \<and> (\<exists>older. stored_list (skintwin_navigation storage) @ [\<lparr>nav_path = p, nav_timestamp = now\<rparr>]
         = older @ snd (predictUserJourney storage p now))
   \<and> skintwin_knowledge (fst (predictUserJourney storage p now)) = skintwin_knowledge storage"
proof -
  let ?h = "stored_list (skintwin_navigation storage) @ [\<lparr>nav_path = p, nav_timestamp = now\<rparr>]"
  have e: "snd (predictUserJourney storage p now) = drop (length ?h - 50) ?h"
    by (simp add: predictUserJourney_def Let_def)
  have "?h = take (length ?h - 50) ?h @ snd (predictUserJourney storage p now)"
    unfolding e by simp
  then have "\<exists>older. ?h = older @ snd (predictUserJourney storage p now)" by blast
  moreover have "length (snd (predictUserJourney storage p now))
       = min 50 (length (stored_list (skintwin_navigation storage)) + 1)"
    unfolding e by simp
  moreover have "skintwin_navigation (fst (predictUserJourney storage p now))
     = Some (snd (predictUserJourney storage p now))"
    by (simp add: predictUserJourney_def Let_def)
  moreover have "skintwin_knowledge (fst (predictUserJourney storage p now))
     = skintwin_knowledge storage"
    by (simp add: predictUserJourney_def Let_def)
  ultimately show ?thesis by blast
qed

theorem predictUserJourney_keeps_last_50_witness:
  "length (snd (predictUserJourney
       \<lparr>skintwin_knowledge = None,
        skintwin_navigation = Some (replicate 50 \<lparr>nav_path = ''/'', nav_timestamp = 1\<rparr>)\<rparr>
       ''/products'' 2)) = 50
   \<and> snd (predictUserJourney
       \<lparr>skintwin_knowledge = None,
        skintwin_navigation = Some (replicate 50 \<lparr>nav_path = ''/'', nav_timestamp = 1\<rparr>)\<rparr>
       ''/products'' 2)
     = replicate 49 \<lparr>nav_path = ''/'', nav_timestamp = 1\<rparr>
         @ [\<lparr>nav_path = ''/products'', nav_timestamp = 2\<rparr>]"
proof -
  let ?st = "\<lparr>skintwin_knowledge = None,
        skintwin_navigation = Some (replicate 50 \<lparr>nav_path = ''/'', nav_timestamp = 1\<rparr>)\<rparr>"
  from predictUserJourney_keeps_last_50 [of ?st "''/products''" 2]
  have "length (snd (predictUserJourney ?st ''/products'' 2))
          = min 50 (length (stored_list (skintwin_navigation ?st)) + 1)"
    by blast
  then have 1: "length (snd (predictUserJourney ?st ''/products'' 2)) = 50"
    by (simp add: stored_list_def)
  have 2: "snd (predictUserJourney ?st ''/products'' 2)
     = replicate 49 \<lparr>nav_path = ''/'', nav_timestamp = 1\<rparr>
         @ [\<lparr>nav_path = ''/products'', nav_timestamp = 2\<rparr>]"
    by code_simp
  from 1 2 show ?thesis by blast
qed

section \<open>Claims about the site builder\<close>

text \<open>
  C7, as stated, fails in four ways.
  \<^item> In the block of the two lines \<open>a: 1\<close> and \<open>a: 2\<close> the first line has the key
    \<open>a\<close> and the value \<open>1\<close>, and the front matter returned has \<open>2\<close> under \<open>a\<close>: the
    later line has overwritten the entry.
  \<^item> The line \<open>__proto__: x\<close> has its first colon at index 9 and yields no entry: the
    assignment to \<open>__proto__\<close> is ignored.
  \<^item> The content of the three lines \<open>---\<close>, \<open>---\<close>, \<open>body\<close> begins with a block
    delimited by \<open>---\<close> lines, an empty one, and the body returned is the whole content,
    not the text after the closing line.
  \<^item> The content of the three lines \<open>---\<close>, \<open>title: x\<close>, \<open>---\<close>, with no line break
    after the closing line, is returned whole as well, with an empty front matter.
\<close>

theorem parseFrontmatter_counterexample:
  "split_on CHR ''\<newline>'' ''a: 1\<newline>a: 2'' = [''a: 1'', ''a: 2'']
   \<and> indexOf ''a: 1'' CHR '':'' = Some 1
   \<and> trim (take 1 ''a: 1'') = ''a''
   \<and> strip_quotes (trim (drop (1 + 1) ''a: 1'')) = ''1''
   \<and> frontmatter (parseFrontmatter ''---\<newline>a: 1\<newline>a: 2\<newline>---\<newline>x'') ''a''
        = Some ''2''
   \<and> frontmatter (parseFrontmatter ''---\<newline>a: 1\<newline>a: 2\<newline>---\<newline>x'') ''a''
        \<noteq> Some ''1''
   \<and> indexOf ''__proto__: x'' CHR '':'' = Some 9
   \<and> trim (take 9 ''__proto__: x'') = ''__proto__''
   \<and> body (parseFrontmatter ''---\<newline>__proto__: x\<newline>---\<newline>b'') = ''b''
   \<and> frontmatter (parseFrontmatter ''---\<newline>__proto__: x\<newline>---\<newline>b'') ''__proto__''
        = None
   \<and> delimited_block ''---\<newline>---\<newline>body'' = Some ([], ''body'')
   \<and> parseFrontmatter ''---\<newline>---\<newline>body''
        = \<lparr>frontmatter = Map.empty, body = ''---\<newline>---\<newline>body''\<rparr>
   \<and> delimited_block ''---\<newline>title: x\<newline>---'' = Some ([''title: x''], [])
   \<and> parseFrontmatter ''---\<newline>title: x\<newline>---''
        = \<lparr>frontmatter = Map.empty, body = ''---\<newline>title: x\<newline>---''\<rparr>"
  by (simp add: parseFrontmatter_def startsWith_def frontmatter_line_def assign_property_def
        trim_def is_space_def strip_quotes_def is_quote_def delimited_block_def)

text \<open>
  C7, amended. A content that is not \<open>---\<close> and a line break, a block, a line break,
  \<open>---\<close> and a line break, and the rest, is returned whole as the body, with an empty
  front matter. Otherwise, with the block ending at the first such closing line, the
  body is the text after the closing line, and every line of the block whose first
  colon is at a positive index, whose key is not \<open>__proto__\<close> and whose key no later
  line of the block sets again, yields the entry of the trimmed text before the colon and
  the trimmed text after it with one leading and one trailing quote character removed.
\<close>

theorem parseFrontmatter_spec:
  "((\<nexists>fm rest. content = ''---\<newline>'' @ fm @ ''\<newline>---\<newline>'' @ rest)
      \<longrightarrow> parseFrontmatter content = \<lparr>frontmatter = Map.empty, body = content\<rparr>)
   \<and> (\<forall>fm rest.
         content = ''---\<newline>'' @ fm @ ''\<newline>---\<newline>'' @ rest
         \<and> \<not> sublist ''\<newline>---\<newline>'' (fm @ ''\<newline>---'')
       \<longrightarrow> body (parseFrontmatter content) = rest
           \<and> (\<forall>pre line post i.
                 split_on CHR ''\<newline>'' fm = pre @ line # post
                 \<and> indexOf line CHR '':'' = Some i \<and> 0 < i
                 \<and> trim (take i line) \<noteq> ''__proto__''
                 \<and> (\<forall>l \<in> set post. \<forall>j. indexOf l CHR '':'' = Some j \<and> 0 < j
                        \<longrightarrow> trim (take j l) \<noteq> trim (take i line))
               \<longrightarrow> frontmatter (parseFrontmatter content) (trim (take i line))
                     = Some (strip_quotes (trim (drop (i + 1) line)))))"
proof (intro conjI impI allI)
  assume "\<nexists>fm rest. content = ''---\<newline>'' @ fm @ ''\<newline>---\<newline>'' @ rest"
  then show "parseFrontmatter content = \<lparr>frontmatter = Map.empty, body = content\<rparr>"
    by (rule parseFrontmatter_no_block)
next
  fix fm rest
  assume "content = ''---\<newline>'' @ fm @ ''\<newline>---\<newline>'' @ rest
         \<and> \<not> sublist ''\<newline>---\<newline>'' (fm @ ''\<newline>---'')"
  then show "body (parseFrontmatter content) = rest"
    using parseFrontmatter_block [of content fm rest] by simp
next
  fix fm rest pre line post i
  assume b: "content = ''---\<newline>'' @ fm @ ''\<newline>---\<newline>'' @ rest
         \<and> \<not> sublist ''\<newline>---\<newline>'' (fm @ ''\<newline>---'')"
    and l: "split_on CHR ''\<newline>'' fm = pre @ line # post
                 \<and> indexOf line CHR '':'' = Some i \<and> 0 < i
                 \<and> trim (take i line) \<noteq> ''__proto__''
                 \<and> (\<forall>l \<in> set post. \<forall>j. indexOf l CHR '':'' = Some j \<and> 0 < j
                        \<longrightarrow> trim (take j l) \<noteq> trim (take i line))"
  from b have "frontmatter (parseFrontmatter content)
                 = foldl frontmatter_line Map.empty (pre @ line # post)"
    using parseFrontmatter_block [of content fm rest] l by simp
  with l show "frontmatter (parseFrontmatter content) (trim (take i line))
                 = Some (strip_quotes (trim (drop (i + 1) line)))"
    using foldl_frontmatter_line_last [of line i post Map.empty pre] by simp
qed

theorem parseFrontmatter_spec_witness:
  "parseFrontmatter ''# Just text'' = \<lparr>frontmatter = Map.empty, body = ''# Just text''\<rparr>
   \<and> body (parseFrontmatter ''---\<newline>title: \"Home\"\<newline>path: /\<newline>---\<newline># Hi'') = ''# Hi''
   \<and> frontmatter (parseFrontmatter ''---\<newline>title: \"Home\"\<newline>path: /\<newline>---\<newline># Hi'')
        ''title'' = Some ''Home''"
proof -
  let ?c = "''---\<newline>title: \"Home\"\<newline>path: /\<newline>---\<newline># Hi''"
  let ?fm = "''title: \"Home\"\<newline>path: /''"
  have n: "\<nexists>fm rest. ''# Just text'' = ''---\<newline>'' @ fm @ ''\<newline>---\<newline>'' @ rest"
    by simp
  have d: "?c = ''---\<newline>'' @ ?fm @ ''\<newline>---\<newline>'' @ ''# Hi''"
    by simp
  have f: "\<not> sublist ''\<newline>---\<newline>'' (?fm @ ''\<newline>---'')"
    unfolding includes_sublist [symmetric] by (simp add: startsWith_def)
  have l: "split_on CHR ''\<newline>'' ?fm = [] @ ''title: \"Home\"'' # [''path: /'']"
    by simp
  have i: "indexOf ''title: \"Home\"'' CHR '':'' = Some 5 \<and> (0::nat) < 5
           \<and> trim (take 5 ''title: \"Home\"'') \<noteq> ''__proto__''"
    by (simp add: trim_def is_space_def)
  have p: "\<forall>l \<in> set [''path: /'']. \<forall>j. indexOf l CHR '':'' = Some j \<and> 0 < j
             \<longrightarrow> trim (take j l) \<noteq> trim (take 5 ''title: \"Home\"'')"
    by (simp add: trim_def is_space_def)
  have v: "trim (take 5 ''title: \"Home\"'') = ''title''
           \<and> strip_quotes (trim (drop (5 + 1) ''title: \"Home\"'')) = ''Home''"
    by (simp add: trim_def is_space_def strip_quotes_def is_quote_def)
  note t = parseFrontmatter_spec [of "''# Just text''"] parseFrontmatter_spec [of ?c]
  from t(1) n have 1: "parseFrontmatter ''# Just text''
                        = \<lparr>frontmatter = Map.empty, body = ''# Just text''\<rparr>"
    by blast
  from t(2) d f have 2: "body (parseFrontmatter ?c) = ''# Hi''"
    by blast
  from t(2) d f l i p
  have "frontmatter (parseFrontmatter ?c) (trim (take 5 ''title: \"Home\"''))
          = Some (strip_quotes (trim (drop (5 + 1) ''title: \"Home\"'')))"
    by blast
  with v have 3: "frontmatter (parseFrontmatter ?c) ''title'' = Some ''Home''"
    by simp
  from 1 2 3 show ?thesis by blast
qed

text \<open>
  C5, as stated: the result is the template with every placeholder replaced by the value
  of its variable. The five replacements are made one after the other, on the result of
  the one before, and the value is read as a replacement pattern. So for the template
  \<open>{{title}}\<close> and the title \<open>{{path}}\<close> the result is the value of the path, not the
  title; for the title \<open>$&\<close> the result is the placeholder itself; and in
  \<open>{{p{{title}}th}}\<close> the title \<open>a\<close> completes a placeholder of the path, which is
  replaced in turn.
\<close>

theorem processTemplate_counterexample:
  "render [Slot Title] = ''{{title}}''
   \<and> fill \<lparr>v_title = ''{{path}}'', v_description = ''d'', v_content = ''c'',
            v_path = ''/about'', v_schemaType = ''WebPage''\<rparr> [Slot Title] = ''{{path}}''
   \<and> processTemplate ''{{title}}''
         \<lparr>v_title = ''{{path}}'', v_description = ''d'', v_content = ''c'',
          v_path = ''/about'', v_schemaType = ''WebPage''\<rparr> = ''/about''
   \<and> processTemplate (render [Slot Title])
         \<lparr>v_title = ''{{path}}'', v_description = ''d'', v_content = ''c'',
          v_path = ''/about'', v_schemaType = ''WebPage''\<rparr>
       \<noteq> fill \<lparr>v_title = ''{{path}}'', v_description = ''d'', v_content = ''c'',
                v_path = ''/about'', v_schemaType = ''WebPage''\<rparr> [Slot Title]
   \<and> processTemplate ''{{title}}''
         \<lparr>v_title = ''$&'', v_description = ''d'', v_content = ''c'',
          v_path = ''/about'', v_schemaType = ''WebPage''\<rparr> = ''{{title}}''
   \<and> render (map Text ''{{p'' @ [Slot Title] @ map Text ''th}}'') = ''{{p{{title}}th}}''
   \<and> fill \<lparr>v_title = ''a'', v_description = ''d'', v_content = ''c'',
            v_path = ''/about'', v_schemaType = ''WebPage''\<rparr>
         (map Text ''{{p'' @ [Slot Title] @ map Text ''th}}'') = ''{{path}}''
   \<and> processTemplate ''{{p{{title}}th}}''
         \<lparr>v_title = ''a'', v_description = ''d'', v_content = ''c'',
          v_path = ''/about'', v_schemaType = ''WebPage''\<rparr> = ''/about''"
  by (simp add: processTemplate_def entries_def replace_global_def replace_from_Cons
        replace_from_Nil placeholder_def)

text \<open>
  C5, amended: for a template made of text and placeholders, in which an opening brace
  of the text is never directly followed by another opening brace, and for values of the
  five variables that contain neither an opening brace nor a dollar sign,
  \<open>processTemplate\<close> returns the template with every occurrence of each placeholder
  replaced by the value of its variable, and the text outside the placeholders unchanged.
\<close>

theorem processTemplate_fills_slots:
  assumes "well_formed segs"
    and "\<forall>k. CHR ''{'' \<notin> set (slot_value variables k) \<and> CHR ''$'' \<notin> set (slot_value variables k)"
  shows "processTemplate (render segs) variables = fill variables segs"
proof -
  let ?v = "slot_value variables"
  let ?s1 = "subst_slot Title (?v Title) segs"
  let ?s2 = "subst_slot Description (?v Description) ?s1"
  let ?s3 = "subst_slot Content (?v Content) ?s2"
  let ?s4 = "subst_slot Path (?v Path) ?s3"
  let ?s5 = "subst_slot SchemaType (?v SchemaType) ?s4"
  from assms(2) have nb: "CHR ''{'' \<notin> set (?v k)" and nd: "CHR ''$'' \<notin> set (?v k)" for k
    by blast+
  have w1: "well_formed ?s1" by (rule well_formed_subst_slot [OF assms(1) nb])
  have w2: "well_formed ?s2" by (rule well_formed_subst_slot [OF w1 nb])
  have w3: "well_formed ?s3" by (rule well_formed_subst_slot [OF w2 nb])
  have w4: "well_formed ?s4" by (rule well_formed_subst_slot [OF w3 nb])
  have p: "''{{'' @ ''title'' @ ''}}'' = placeholder Title"
          "''{{'' @ ''description'' @ ''}}'' = placeholder Description"
          "''{{'' @ ''content'' @ ''}}'' = placeholder Content"
          "''{{'' @ ''path'' @ ''}}'' = placeholder Path"
          "''{{'' @ ''schemaType'' @ ''}}'' = placeholder SchemaType"
    by (simp_all add: placeholder_def)
  have 1: "replace_global (placeholder Title) (?v Title) (render segs) = render ?s1"
    unfolding replace_global_def by (rule replace_from_render [OF assms(1) nd])
  have 2: "replace_global (placeholder Description) (?v Description) (render ?s1) = render ?s2"
    unfolding replace_global_def by (rule replace_from_render [OF w1 nd])
  have 3: "replace_global (placeholder Content) (?v Content) (render ?s2) = render ?s3"
    unfolding replace_global_def by (rule replace_from_render [OF w2 nd])
  have 4: "replace_global (placeholder Path) (?v Path) (render ?s3) = render ?s4"
    unfolding replace_global_def by (rule replace_from_render [OF w3 nd])
  have 5: "replace_global (placeholder SchemaType) (?v SchemaType) (render ?s4) = render ?s5"
    unfolding replace_global_def by (rule replace_from_render [OF w4 nd])
  have "processTemplate (render segs) variables =
          replace_global (placeholder SchemaType) (?v SchemaType)
            (replace_global (placeholder Path) (?v Path)
              (replace_global (placeholder Content) (?v Content)
                (replace_global (placeholder Description) (?v Description)
                  (replace_global (placeholder Title) (?v Title) (render segs)))))"
    unfolding processTemplate_def entries_def foldl.simps prod.case p by simp
  also have "\<dots> = render ?s5"
    by (simp only: 1 2 3 4 5)
  also have "\<dots> = fill variables segs"
    by (rule subst_all_fill)
  finally show ?thesis .
qed

theorem processTemplate_fills_slots_witness:
  "processTemplate ''<h1>{{title}}</h1>{{content}} {{title}}''
     \<lparr>v_title = ''Home'', v_description = ''d'', v_content = ''<p>Hi</p>'',
      v_path = ''/'', v_schemaType = ''WebPage''\<rparr>
     = ''<h1>Home</h1><p>Hi</p> Home''"
proof -
  let ?segs = "map Text ''<h1>'' @ [Slot Title] @ map Text ''</h1>'' @ [Slot Content]
                 @ [Text CHR '' '', Slot Title]"
  let ?vs = "\<lparr>v_title = ''Home'', v_description = ''d'', v_content = ''<p>Hi</p>'',
              v_path = ''/'', v_schemaType = ''WebPage''\<rparr>"
  have w: "well_formed ?segs" by simp
  have v: "\<forall>k. CHR ''{'' \<notin> set (slot_value ?vs k) \<and> CHR ''$'' \<notin> set (slot_value ?vs k)"
  proof
    fix k show "CHR ''{'' \<notin> set (slot_value ?vs k) \<and> CHR ''$'' \<notin> set (slot_value ?vs k)"
      by (cases k) simp_all
  qed
  have r: "render ?segs = ''<h1>{{title}}</h1>{{content}} {{title}}''"
    by (simp add: placeholder_def)
  have f: "fill ?vs ?segs = ''<h1>Home</h1><p>Hi</p> Home''"
    by simp
  from processTemplate_fills_slots [OF w v] r f show ?thesis by simp
qed

text \<open>
  C6, as stated: every run performs all the steps, inside the output directory. A run
  stops at the first step that throws: with a page \<open>about.md\<close> and no layout template,
  the build removes and recreates the output directory, copies the assets, and exits
  with code 1 before any page, site map or robots file is written. And a page file named
  \<open>...md\<close> has the page name \<open>..\<close>, so its page is written to \<open>index.html\<close> in the
  parent of the output directory.
\<close>

theorem build_counterexample:
  "build env_without_layout =
     ([Remove [''site'', ''public''], EnsureDir [''site'', ''public''],
       Copy [''site'', ''assets''] [''site'', ''public'', ''assets'']], 1)
   \<and> build env_with_dots_page =
     ([Remove [''site'', ''public''], EnsureDir [''site'', ''public''],
       Copy [''site'', ''assets''] [''site'', ''public'', ''assets''],
       EnsureDir [''site''], WriteFile [''site'', ''index.html''] (Html ''x''),
       WriteFile [''site'', ''public'', ''sitemap.xml'']
         (SitemapXml ''https://regima.site'' ''2024-01-01''),
       WriteFile [''site'', ''public'', ''robots.txt''] (RobotsTxt ''https://regima.site''),
       EnsureDir [''site'', ''public'', ''cognitive''],
       WriteFile [''site'', ''public'', ''cognitive'', ''index.json'']
         (CognitiveIndexJson ''2024-01-01T00:00:00.000Z''),
       WriteFile [''site'', ''public'', ''cognitive'', ''api.html''] ApiDocHtml], 0)
   \<and> publicDir env_with_dots_page = [''site'', ''public'']"
  by code_simp

text \<open>
  C6, amended: every run of the build that ends without an exception (exit code 0)
  performs, in this order: the removal and the creation of the output directory, the copy
  of the assets into it, for every file of the pages directory that ends in \<open>.md\<close>, in
  the order of the listing, the rendering of its content with the layout (\<open>index.md\<close> to
  \<open>index.html\<close> in the output directory, any other \<open>x.md\<close> to \<open>index.html\<close> in the
  directory \<open>x\<close>, created first), the writing of \<open>sitemap.xml\<close> and of \<open>robots.txt\<close>,
  and then the knowledge index. Unless a page file is named \<open>...md\<close>, every path so
  removed, created or written is inside the output directory.
\<close>

theorem build_order:
  assumes "snd (build env) = 0"
  shows "\<exists>pages.
     readdir env (path_join (contentDir env) ''pages'') = Some pages
     \<and> fst (build env) =
         [Remove (publicDir env), EnsureDir (publicDir env),
          Copy (assetsDir env) (path_join (publicDir env) ''assets'')]
         @ concat (map (page_ops env) (filter (\<lambda>f. endsWith f ''.md'') pages))
         @ [WriteFile (path_join (publicDir env) ''sitemap.xml'')
              (SitemapXml siteConfig_baseUrl (isoDate env)),
            WriteFile (path_join (publicDir env) ''robots.txt'') (RobotsTxt siteConfig_baseUrl)]
         @ [EnsureDir (path_join (publicDir env) ''cognitive''),
            WriteFile (path_join (path_join (publicDir env) ''cognitive'') ''index.json'')
              (CognitiveIndexJson (isoNow env)),
            WriteFile (path_join (path_join (publicDir env) ''cognitive'') ''api.html'')
              ApiDocHtml]
     \<and> (\<forall>f \<in> set pages. endsWith f ''.md'' \<longrightarrow>
           readFile env (path_join (path_join (contentDir env) ''pages'') f) \<noteq> None
           \<and> readFile env (path_join (templatesDir env) ''layout.html'') \<noteq> None)
     \<and> (''...md'' \<notin> set pages \<longrightarrow>
           (\<forall>act \<in> set (fst (build env)). prefix (publicDir env) (target act)))"
proof -
  let ?pub = "publicDir env"
  let ?cog = "path_join ?pub ''cognitive''"
  define r0 where "r0 = \<lparr>performed = [], thrown = False\<rparr>"
  define r1 where "r1 = perform env (Remove ?pub) r0"
  define r2 where "r2 = perform env (EnsureDir ?pub) r1"
  define r3 where "r3 = copyAssets env r2"
  define r4 where "r4 = buildPages env r3"
  define r5 where "r5 = generateSitemap env r4"
  define r6 where "r6 = generateRobots env r5"
  define c1 where "c1 = perform env (EnsureDir ?cog) r6"
  define c2 where "c2 = perform env (WriteFile (path_join ?cog ''index.json'')
                                        (CognitiveIndexJson (isoNow env))) c1"
  define r7 where "r7 = perform env (WriteFile (path_join ?cog ''api.html'') ApiDocHtml) c2"
  have b: "build env = (performed r7, if thrown r7 then 1 else 0)"
    by (simp add: build_def Let_def generateCognitiveIndex_def
          r0_def r1_def r2_def r3_def r4_def r5_def r6_def c1_def c2_def r7_def)
  with assms have n7: "\<not> thrown r7" by (simp split: if_splits)
  from perform_ok [OF n7 [unfolded r7_def]]
  have n8: "\<not> thrown c2" and p7: "performed r7 = performed c2
              @ [WriteFile (path_join ?cog ''api.html'') ApiDocHtml]"
    by (simp_all add: r7_def)
  from perform_ok [OF n8 [unfolded c2_def]]
  have n9: "\<not> thrown c1" and p8: "performed c2 = performed c1
              @ [WriteFile (path_join ?cog ''index.json'') (CognitiveIndexJson (isoNow env))]"
    by (simp_all add: c2_def)
  from perform_ok [OF n9 [unfolded c1_def]]
  have n6: "\<not> thrown r6" and p9: "performed c1 = performed r6 @ [EnsureDir ?cog]"
    by (simp_all add: c1_def)
  from perform_ok [OF n6 [unfolded r6_def generateRobots_def]]
  have n5: "\<not> thrown r5" and p6: "performed r6 = performed r5
              @ [WriteFile (path_join ?pub ''robots.txt'') (RobotsTxt siteConfig_baseUrl)]"
    by (simp_all add: r6_def generateRobots_def)
  from perform_ok [OF n5 [unfolded r5_def generateSitemap_def]]
  have n4: "\<not> thrown r4" and p5: "performed r5 = performed r4
              @ [WriteFile (path_join ?pub ''sitemap.xml'')
                   (SitemapXml siteConfig_baseUrl (isoDate env))]"
    by (simp_all add: r5_def generateSitemap_def)
  from buildPages_ok [OF n4 [unfolded r4_def]] obtain pages where
    n3: "\<not> thrown r3"
    and rd: "readdir env (path_join (contentDir env) ''pages'') = Some pages"
    and p4: "performed r4 = performed r3
               @ concat (map (page_ops env) (filter (\<lambda>f. endsWith f ''.md'') pages))"
    and rf: "\<forall>f \<in> set pages. endsWith f ''.md'' \<longrightarrow>
                readFile env (path_join (path_join (contentDir env) ''pages'') f) \<noteq> None
                \<and> readFile env (path_join (templatesDir env) ''layout.html'') \<noteq> None"
    unfolding r4_def by blast
  from perform_ok [OF n3 [unfolded r3_def copyAssets_def]]
  have n2: "\<not> thrown r2" and p3: "performed r3 = performed r2
              @ [Copy (assetsDir env) (path_join ?pub ''assets'')]"
    by (simp_all add: r3_def copyAssets_def)
  from perform_ok [OF n2 [unfolded r2_def]]
  have n1: "\<not> thrown r1" and p2: "performed r2 = performed r1 @ [EnsureDir ?pub]"
    by (simp_all add: r2_def)
  from perform_ok [OF n1 [unfolded r1_def]]
  have p1: "performed r1 = performed r0 @ [Remove ?pub]"
    by (simp add: r1_def)
  have ops: "fst (build env) =
         [Remove ?pub, EnsureDir ?pub, Copy (assetsDir env) (path_join ?pub ''assets'')]
         @ concat (map (page_ops env) (filter (\<lambda>f. endsWith f ''.md'') pages))
         @ [WriteFile (path_join ?pub ''sitemap.xml'')
              (SitemapXml siteConfig_baseUrl (isoDate env)),
            WriteFile (path_join ?pub ''robots.txt'') (RobotsTxt siteConfig_baseUrl)]
         @ [EnsureDir ?cog,
            WriteFile (path_join ?cog ''index.json'') (CognitiveIndexJson (isoNow env)),
            WriteFile (path_join ?cog ''api.html'') ApiDocHtml]"
    by (simp add: b p1 p2 p3 p4 p5 p6 p7 p8 p9 r0_def)
  have inside: "prefix ?pub (target act)"
    if nd: "''...md'' \<notin> set pages" and a: "act \<in> set (fst (build env))" for act
  proof -
    have pc: "prefix ?pub ?cog" by (simp add: prefix_path_join)
    from a consider
        "act \<in> {Remove ?pub, EnsureDir ?pub, Copy (assetsDir env) (path_join ?pub ''assets'')}"
      | f where "f \<in> set pages" "endsWith f ''.md''" "act \<in> set (page_ops env f)"
      | "act \<in> {WriteFile (path_join ?pub ''sitemap.xml'')
                    (SitemapXml siteConfig_baseUrl (isoDate env)),
                  WriteFile (path_join ?pub ''robots.txt'') (RobotsTxt siteConfig_baseUrl)}"
      | "act \<in> {EnsureDir ?cog,
                  WriteFile (path_join ?cog ''index.json'') (CognitiveIndexJson (isoNow env)),
                  WriteFile (path_join ?cog ''api.html'') ApiDocHtml}"
      unfolding ops by auto
    then show ?thesis
    proof cases
      case 1
      then show ?thesis by (auto simp: prefix_path_join)
    next
      case 2
      with nd have "f \<noteq> ''...md''" by auto
      with 2 show ?thesis by (simp add: page_ops_inside)
    next
      case 3
      then show ?thesis by (auto simp: prefix_path_join)
    next
      case 4
      with pc show ?thesis by (auto simp: prefix_path_join)
    qed
  qed
  from rd ops rf inside show ?thesis by blast
qed

theorem build_order_witness:
  "snd (build env_two_pages) = 0
   \<and> fst (build env_two_pages) =
     [Remove [''site'', ''public''], EnsureDir [''site'', ''public''],
      Copy [''site'', ''assets''] [''site'', ''public'', ''assets''],
      WriteFile [''site'', ''public'', ''index.html''] (Html (siteConfig_title @ '':home'')),
      EnsureDir [''site'', ''public'', ''about''],
      WriteFile [''site'', ''public'', ''about'', ''index.html''] (Html ''About:us''),
      WriteFile [''site'', ''public'', ''sitemap.xml'']
        (SitemapXml ''https://regima.site'' ''2024-01-01''),
      WriteFile [''site'', ''public'', ''robots.txt''] (RobotsTxt ''https://regima.site''),
      EnsureDir [''site'', ''public'', ''cognitive''],
      WriteFile [''site'', ''public'', ''cognitive'', ''index.json'']
        (CognitiveIndexJson ''2024-01-01T00:00:00.000Z''),
      WriteFile [''site'', ''public'', ''cognitive'', ''api.html''] ApiDocHtml]
   \<and> list_all (\<lambda>act. prefix [''site'', ''public''] (target act)) (fst (build env_two_pages))"
proof -
  have h: "snd (build env_two_pages) = 0"
    by code_simp
  have pd: "publicDir env_two_pages = [''site'', ''public'']"
    by code_simp
  have rd: "readdir env_two_pages (path_join (contentDir env_two_pages) ''pages'')
              = Some [''index.md'', ''notes.txt'', ''about.md'']"
    by code_simp
  have rhs:
        "[Remove (publicDir env_two_pages), EnsureDir (publicDir env_two_pages),
          Copy (assetsDir env_two_pages) (path_join (publicDir env_two_pages) ''assets'')]
         @ concat (map (page_ops env_two_pages)
              (filter (\<lambda>f. endsWith f ''.md'') [''index.md'', ''notes.txt'', ''about.md'']))
         @ [WriteFile (path_join (publicDir env_two_pages) ''sitemap.xml'')
              (SitemapXml siteConfig_baseUrl (isoDate env_two_pages)),
            WriteFile (path_join (publicDir env_two_pages) ''robots.txt'')
              (RobotsTxt siteConfig_baseUrl)]
         @ [EnsureDir (path_join (publicDir env_two_pages) ''cognitive''),
            WriteFile (path_join (path_join (publicDir env_two_pages) ''cognitive'') ''index.json'')
              (CognitiveIndexJson (isoNow env_two_pages)),
            WriteFile (path_join (path_join (publicDir env_two_pages) ''cognitive'') ''api.html'')
              ApiDocHtml]
       = [Remove [''site'', ''public''], EnsureDir [''site'', ''public''],
          Copy [''site'', ''assets''] [''site'', ''public'', ''assets''],
          WriteFile [''site'', ''public'', ''index.html''] (Html (siteConfig_title @ '':home'')),
          EnsureDir [''site'', ''public'', ''about''],
          WriteFile [''site'', ''public'', ''about'', ''index.html''] (Html ''About:us''),
          WriteFile [''site'', ''public'', ''sitemap.xml'']
            (SitemapXml ''https://regima.site'' ''2024-01-01''),
          WriteFile [''site'', ''public'', ''robots.txt''] (RobotsTxt ''https://regima.site''),
          EnsureDir [''site'', ''public'', ''cognitive''],
          WriteFile [''site'', ''public'', ''cognitive'', ''index.json'']
            (CognitiveIndexJson ''2024-01-01T00:00:00.000Z''),
          WriteFile [''site'', ''public'', ''cognitive'', ''api.html''] ApiDocHtml]"
    by code_simp
  from build_order [OF h] rd have
    ops: "fst (build env_two_pages) =
         [Remove (publicDir env_two_pages), EnsureDir (publicDir env_two_pages),
          Copy (assetsDir env_two_pages) (path_join (publicDir env_two_pages) ''assets'')]
         @ concat (map (page_ops env_two_pages)
              (filter (\<lambda>f. endsWith f ''.md'') [''index.md'', ''notes.txt'', ''about.md'']))
         @ [WriteFile (path_join (publicDir env_two_pages) ''sitemap.xml'')
              (SitemapXml siteConfig_baseUrl (isoDate env_two_pages)),
            WriteFile (path_join (publicDir env_two_pages) ''robots.txt'')
              (RobotsTxt siteConfig_baseUrl)]
         @ [EnsureDir (path_join (publicDir env_two_pages) ''cognitive''),
            WriteFile (path_join (path_join (publicDir env_two_pages) ''cognitive'') ''index.json'')
              (CognitiveIndexJson (isoNow env_two_pages)),
            WriteFile (path_join (path_join (publicDir env_two_pages) ''cognitive'') ''api.html'')
              ApiDocHtml]"
    and ins: "''...md'' \<notin> set [''index.md'', ''notes.txt'', ''about.md''] \<longrightarrow>
           (\<forall>act \<in> set (fst (build env_two_pages)).
              prefix (publicDir env_two_pages) (target act))"
    by auto
  from ins have 3: "list_all (\<lambda>act. prefix [''site'', ''public''] (target act))
                      (fst (build env_two_pages))"
    by (simp add: list_all_iff pd)
  from ops rhs have 2: "fst (build env_two_pages) =
     [Remove [''site'', ''public''], EnsureDir [''site'', ''public''],
      Copy [''site'', ''assets''] [''site'', ''public'', ''assets''],
      WriteFile [''site'', ''public'', ''index.html''] (Html (siteConfig_title @ '':home'')),
      EnsureDir [''site'', ''public'', ''about''],
      WriteFile [''site'', ''public'', ''about'', ''index.html''] (Html ''About:us''),
      WriteFile [''site'', ''public'', ''sitemap.xml'']
        (SitemapXml ''https://regima.site'' ''2024-01-01''),
      WriteFile [''site'', ''public'', ''robots.txt''] (RobotsTxt ''https://regima.site''),
      EnsureDir [''site'', ''public'', ''cognitive''],
      WriteFile [''site'', ''public'', ''cognitive'', ''index.json'']
        (CognitiveIndexJson ''2024-01-01T00:00:00.000Z''),
      WriteFile [''site'', ''public'', ''cognitive'', ''api.html''] ApiDocHtml]"
    by (rule trans)
  from h 2 3 show ?thesis by blast
qed

end
